theory Spec2Isabelle
  imports Main "HOL-Library.Word"
begin


section \<open>JavaScript strings\<close>

text \<open>
  A JavaScript string is a sequence of UTF-16 code units. \<open>js\<close> embeds an ASCII
  literal of the source. \<open>is_whitespace\<close> is the set of code units that
  \<^verbatim>\<open>String.prototype.trim\<close> strips (ECMAScript WhiteSpace and LineTerminator).
\<close>

type_synonym js_char = "16 word"
type_synonym js_string = "js_char list"

definition js :: "string \<Rightarrow> js_string" where
  "js s = map of_char s"

definition is_whitespace :: "js_char \<Rightarrow> bool" where
  "is_whitespace c \<longleftrightarrow>
     c \<in> {0x09, 0x0A, 0x0B, 0x0C, 0x0D, 0x20, 0xA0, 0x1680, 0x2028, 0x2029,
          0x202F, 0x205F, 0x3000, 0xFEFF} \<or> (0x2000 \<le> c \<and> c \<le> 0x200A)"

definition trimStart :: "js_string \<Rightarrow> js_string" where
  "trimStart s = dropWhile is_whitespace s"

definition trim :: "js_string \<Rightarrow> js_string" where
  "trim s = rev (dropWhile is_whitespace (rev (dropWhile is_whitespace s)))"

definition startsWith :: "js_string \<Rightarrow> js_string \<Rightarrow> bool" where
  "startsWith s p \<longleftrightarrow> take (length p) s = p"

text \<open>
  \<^verbatim>\<open>s.split('\n')\<close>, scanning from the left with the piece read so far; there is
  always at least one piece.
\<close>

fun split_from :: "js_string \<Rightarrow> js_string \<Rightarrow> js_string list" where
  "split_from piece [] = [piece]"
| "split_from piece (c # cs) =
     (if c = 0x0A then piece # split_from [] cs else split_from (piece @ [c]) cs)"

definition split_nl :: "js_string \<Rightarrow> js_string list" where
  "split_nl s = split_from [] s"

text \<open>\<^verbatim>\<open>lines.join('\n')\<close>\<close>

fun join_nl :: "js_string list \<Rightarrow> js_string" where
  "join_nl [] = []"
| "join_nl [l] = l"
| "join_nl (l # ls) = l @ 0x0A # join_nl ls"

text \<open>\<^verbatim>\<open>Array.prototype.findIndex\<close>; \<open>None\<close> is the result \<open>-1\<close>.\<close>

fun findIndex :: "('a \<Rightarrow> bool) \<Rightarrow> 'a list \<Rightarrow> nat option" where
  "findIndex P [] = None"
| "findIndex P (x # xs) = (if P x then Some 0 else map_option Suc (findIndex P xs))"


section \<open>validateCode\<close>

text \<open>
  The object returned by \<^verbatim>\<open>validateCode\<close> is either
  \<^verbatim>\<open>{valid: false, error}\<close> or \<^verbatim>\<open>{valid: true, modifiedCode, message?}\<close>.
\<close>

datatype validation =
    Invalid js_string
  | Valid js_string "js_string option"

definition is_function_line :: "js_string \<Rightarrow> bool" where
  "is_function_line line \<longleftrightarrow> startsWith (trim line) (js ''def two_sum'')"

text \<open>
  The \<^verbatim>\<open>for\<close> loop of \<^verbatim>\<open>validateCode\<close>, run over the lines that follow the
  definition line; the result is the final value of \<^verbatim>\<open>hasImplementation\<close>.
\<close>

fun hasImplementation :: "js_string list \<Rightarrow> bool" where
  "hasImplementation [] = False"
| "hasImplementation (l # ls) =
     (let line = trim l in
      if startsWith l (js '' '') \<or> startsWith l [0x09] then
        (if line \<noteq> [] \<and> \<not> startsWith line (js ''#'') then True
         else hasImplementation ls)
      else if line \<noteq> [] then False
      else hasImplementation ls)"

definition pass_line :: js_string where
  "pass_line = js ''    pass  # Added automatically''"

definition no_function_error :: js_string where
  "no_function_error =
     js ''No two_sum function found. Please define a function named two_sum(nums, target).''"

definition empty_function_message :: js_string where
  "empty_function_message =
     js ''Your function appears to be empty. A pass statement has been added to make it valid.''"

text \<open>\<^verbatim>\<open>lines.splice(i, 0, x)\<close>\<close>

definition splice_insert :: "nat \<Rightarrow> 'a \<Rightarrow> 'a list \<Rightarrow> 'a list" where
  "splice_insert i x xs = take i xs @ [x] @ drop i xs"

definition validateCode :: "js_string \<Rightarrow> validation" where
  "validateCode code =
     (let lines = split_nl code in
      case findIndex is_function_line lines of
        None \<Rightarrow> Invalid no_function_error
      | Some functionLineIndex \<Rightarrow>
          if \<not> hasImplementation (drop (functionLineIndex + 1) lines)
          then Valid (join_nl (splice_insert (functionLineIndex + 1) pass_line lines))
                     (Some empty_function_message)
          else Valid code None)"


section \<open>Values, exceptions and the runtime\<close>

text \<open>
  An exception object; only its \<^verbatim>\<open>message\<close> is ever read by the source.
\<close>

datatype js_error = JsError js_string

fun err_message :: "js_error \<Rightarrow> js_string" where
  "err_message (JsError m) = m"

text \<open>
  What \<^verbatim>\<open>JSON.parse\<close> can return. Numbers are IEEE doubles in JavaScript; they are
  kept abstract (type \<open>'n\<close>) and every operation on them is supplied by the runtime
  record below. An object is an association list; the first binding of a key is the
  property's value.
\<close>

datatype 'n json =
    JNull
  | JBool bool
  | JNum 'n
  | JStr js_string
  | JArr "'n json list"
  | JObj "(js_string \<times> 'n json) list"

text \<open>The places where the source can raise a \<^verbatim>\<open>TypeError\<close>.\<close>

datatype fault =
    PropertyOfNull js_string
  | PropertyOfUndefined js_string
  | NotAFunction js_string

text \<open>
  The parts of the JavaScript runtime that the source calls and does not define:
  the JSON parser (\<open>Inl\<close> is the \<^verbatim>\<open>SyntaxError\<close> it throws), number literals,
  truthiness and addition of numbers, \<^verbatim>\<open>toFixed(4)\<close>, the string result of
  \<^verbatim>\<open>+\<close> when an operand is not numeric (which can throw), and the wording of
  a \<^verbatim>\<open>TypeError\<close>. \<open>num_of_nat k\<close> is the number \<open>k\<close>; \<open>num_falsy\<close> holds of
  the zeros and of NaN. All results below hold for every such runtime.
\<close>

record 'n engine =
  JSON_parse :: "js_string \<Rightarrow> js_error + 'n json"
  num_of_nat :: "nat \<Rightarrow> 'n"
  num_falsy :: "'n \<Rightarrow> bool"
  num_add :: "'n \<Rightarrow> 'n \<Rightarrow> 'n"
  toFixed4 :: "'n \<Rightarrow> js_string"
  string_plus :: "'n json \<Rightarrow> 'n json \<Rightarrow> js_error + js_string"
  TypeError_message :: "fault \<Rightarrow> js_string"

definition TypeError :: "'n engine \<Rightarrow> fault \<Rightarrow> js_error" where
  "TypeError eng f = JsError (TypeError_message eng f)"

text \<open>ToBoolean of a value that may be \<^verbatim>\<open>undefined\<close> (\<open>None\<close>).\<close>

fun truthy :: "'n engine \<Rightarrow> 'n json option \<Rightarrow> bool" where
  "truthy eng None = False"
| "truthy eng (Some JNull) = False"
| "truthy eng (Some (JBool b)) = b"
| "truthy eng (Some (JNum n)) = (\<not> num_falsy eng n)"
| "truthy eng (Some (JStr s)) = (s \<noteq> [])"
| "truthy eng (Some (JArr xs)) = True"
| "truthy eng (Some (JObj kvs)) = True"

text \<open>
  \<^verbatim>\<open>v.k\<close> for the property names \<^verbatim>\<open>error\<close>, \<^verbatim>\<open>passed\<close> and
  \<^verbatim>\<open>execution_time\<close>, which no prototype defines: only an object can have them,
  and reading them from \<^verbatim>\<open>null\<close> or \<^verbatim>\<open>undefined\<close> throws.
\<close>

fun get_member :: "'n json option \<Rightarrow> js_string \<Rightarrow> fault + 'n json option" where
  "get_member None k = Inl (PropertyOfUndefined k)"
| "get_member (Some JNull) k = Inl (PropertyOfNull k)"
| "get_member (Some (JObj kvs)) k = Inr (map_of kvs k)"
| "get_member (Some v) k = Inr None"

text \<open>\<^verbatim>\<open>results.length === 1\<close>\<close>

fun length_is_1 :: "'n engine \<Rightarrow> 'n json \<Rightarrow> fault + bool" where
  "length_is_1 eng JNull = Inl (PropertyOfNull (js ''length''))"
| "length_is_1 eng (JArr xs) = Inr (length xs = 1)"
| "length_is_1 eng (JStr s) = Inr (length s = 1)"
| "length_is_1 eng (JObj kvs) =
     Inr (map_of kvs (js ''length'') = Some (JNum (num_of_nat eng 1)))"
| "length_is_1 eng v = Inr False"

text \<open>\<^verbatim>\<open>results[0]\<close>, for a \<^verbatim>\<open>results\<close> that is not \<^verbatim>\<open>null\<close>.\<close>

fun index0 :: "'n json \<Rightarrow> 'n json option" where
  "index0 (JArr xs) = (case xs of [] \<Rightarrow> None | x # _ \<Rightarrow> Some x)"
| "index0 (JStr s) = (case s of [] \<Rightarrow> None | c # _ \<Rightarrow> Some (JStr [c]))"
| "index0 (JObj kvs) = map_of kvs (js ''0'')"
| "index0 v = None"

text \<open>
  \<^verbatim>\<open>results.every(result => result.passed === "True" || result.passed === true)\<close>:
  stops at the first record that is not passed; a \<^verbatim>\<open>null\<close> element throws.
\<close>

definition is_passed :: "'n json option \<Rightarrow> bool" where
  "is_passed p \<longleftrightarrow> p = Some (JStr (js ''True'')) \<or> p = Some (JBool True)"

fun every_passed :: "'n json list \<Rightarrow> fault + bool" where
  "every_passed [] = Inr True"
| "every_passed (result # rest) =
     (case get_member (Some result) (js ''passed'') of
        Inl f \<Rightarrow> Inl f
      | Inr p \<Rightarrow> if is_passed p then every_passed rest else Inr False)"

text \<open>
  ToNumber of an operand of \<^verbatim>\<open>+\<close> that is a primitive other than a string;
  \<open>None\<close> for strings, arrays and objects, whose sum is a string.
\<close>

fun to_number :: "'n engine \<Rightarrow> 'n json \<Rightarrow> 'n option" where
  "to_number eng (JNum n) = Some n"
| "to_number eng (JBool b) = Some (num_of_nat eng (if b then 1 else 0))"
| "to_number eng JNull = Some (num_of_nat eng 0)"
| "to_number eng v = None"

definition js_plus :: "'n engine \<Rightarrow> 'n json \<Rightarrow> 'n json \<Rightarrow> js_error + 'n json" where
  "js_plus eng a b =
     (case (to_number eng a, to_number eng b) of
        (Some x, Some y) \<Rightarrow> Inr (JNum (num_add eng x y))
      | _ \<Rightarrow> (case string_plus eng a b of Inl e \<Rightarrow> Inl e | Inr s \<Rightarrow> Inr (JStr s)))"

text \<open>\<^verbatim>\<open>curr.execution_time || 0\<close>\<close>

definition or_zero :: "'n engine \<Rightarrow> 'n json option \<Rightarrow> 'n json" where
  "or_zero eng x =
     (case x of
        None \<Rightarrow> JNum (num_of_nat eng 0)
      | Some v \<Rightarrow> if truthy eng (Some v) then v else JNum (num_of_nat eng 0))"

text \<open>
  \<^verbatim>\<open>results.reduce((acc, curr) => acc + (curr.execution_time || 0), acc0)\<close>
\<close>

fun reduce_time :: "'n engine \<Rightarrow> 'n json \<Rightarrow> 'n json list \<Rightarrow> js_error + 'n json" where
  "reduce_time eng acc [] = Inr acc"
| "reduce_time eng acc (cur # rest) =
     (case get_member (Some cur) (js ''execution_time'') of
        Inl f \<Rightarrow> Inl (TypeError eng f)
      | Inr x \<Rightarrow>
          (case js_plus eng acc (or_zero eng x) of
             Inl e \<Rightarrow> Inl e
           | Inr acc' \<Rightarrow> reduce_time eng acc' rest))"

text \<open>\<^verbatim>\<open>(...).toFixed(4)\<close>: only a number has the method.\<close>

fun toFixed :: "'n engine \<Rightarrow> 'n json \<Rightarrow> js_error + js_string" where
  "toFixed eng (JNum n) = Inr (toFixed4 eng n)"
| "toFixed eng v = Inl (TypeError eng (NotAFunction (js ''toFixed'')))"


section \<open>The Verdict\<close>

record 'n verdict =
  success :: bool
  error :: "'n json option"
  output_text :: "js_string option"
  testResults :: "'n json option"
  executionTime :: "js_string option"
  message :: "js_string option"

text \<open>The object literal \<^verbatim>\<open>{success: false, error: e}\<close>.\<close>

definition failure :: "'n json \<Rightarrow> 'n verdict" where
  "failure e =
     \<lparr>success = False, error = Some e, output_text = None, testResults = None,
      executionTime = None, message = None\<rparr>"

definition all_passed_text :: js_string where
  "all_passed_text = js ''All test cases passed!''"

definition some_failed_text :: js_string where
  "some_failed_text = js ''Some test cases failed.''"

text \<open>
  The body of the inner \<^verbatim>\<open>try\<close> of \<^verbatim>\<open>executeCode\<close>: parse, look for the error
  record, aggregate. \<open>Inl\<close> is an exception thrown out of that block.
\<close>

definition error_record :: "'n engine \<Rightarrow> 'n json \<Rightarrow> js_error + 'n json option" where
  "error_record eng results =
     (case length_is_1 eng results of
        Inl f \<Rightarrow> Inl (TypeError eng f)
      | Inr False \<Rightarrow> Inr None
      | Inr True \<Rightarrow>
          (case get_member (index0 results) (js ''error'') of
             Inl f \<Rightarrow> Inl (TypeError eng f)
           | Inr e \<Rightarrow> if truthy eng e then Inr e else Inr None))"

definition aggregate :: "'n engine \<Rightarrow> 'n json \<Rightarrow> js_string option \<Rightarrow> js_error + 'n verdict" where
  "aggregate eng results msg =
     (case results of
        JArr rs \<Rightarrow>
          (case every_passed rs of
             Inl f \<Rightarrow> Inl (TypeError eng f)
           | Inr allPassed \<Rightarrow>
               (case reduce_time eng (JNum (num_of_nat eng 0)) rs of
                  Inl e \<Rightarrow> Inl e
                | Inr acc \<Rightarrow>
                    (case toFixed eng acc of
                       Inl e \<Rightarrow> Inl e
                     | Inr totalTime \<Rightarrow>
                         Inr \<lparr>success = allPassed,
                              error = None,
                              output_text = Some (if allPassed then all_passed_text
                                             else some_failed_text),
                              testResults = Some results,
                              executionTime = Some (totalTime @ js ''s''),
                              message = (case msg of
                                           None \<Rightarrow> None
                                         | Some m \<Rightarrow> if m \<noteq> [] then Some m else None)\<rparr>)))
      | _ \<Rightarrow> Inl (TypeError eng (NotAFunction (js ''results.every''))))"

definition process_output ::
  "'n engine \<Rightarrow> js_string \<Rightarrow> js_string option \<Rightarrow> js_error + 'n verdict" where
  "process_output eng stdout msg =
     (case JSON_parse eng stdout of
        Inl e \<Rightarrow> Inl e
      | Inr results \<Rightarrow>
          (case error_record eng results of
             Inl e \<Rightarrow> Inl e
           | Inr (Some e) \<Rightarrow> Inr (failure e)
           | Inr None \<Rightarrow> aggregate eng results msg))"

text \<open>
  The part of the callback of \<^verbatim>\<open>executeCode\<close> that follows the deletion of the
  file: the exit error is looked at first, then the inner \<^verbatim>\<open>try\<close> with its
  \<^verbatim>\<open>catch (parseError)\<close>.
\<close>

definition interpret_result ::
  "'n engine \<Rightarrow> js_error option \<Rightarrow> js_string \<Rightarrow> js_string \<Rightarrow> js_string option \<Rightarrow> 'n verdict" where
  "interpret_result eng exitError stdout stderr msg =
     (case exitError of
        Some err \<Rightarrow> failure (JStr (if stderr \<noteq> [] then stderr else err_message err))
      | None \<Rightarrow>
          (case process_output eng stdout msg of
             Inr v \<Rightarrow> v
           | Inl parseError \<Rightarrow>
               failure (JStr (js ''Failed to parse Python output: '' @ err_message parseError
                              @ [0x0A] @ js ''Raw output: '' @ stdout))))"


section \<open>The file system, the child process and the pipeline\<close>

text \<open>
  The calls the pipeline makes to the outside, in order, and the files that exist.
\<close>

datatype event =
    WriteFileSync js_string js_string
  | Exec js_string
  | UnlinkSync js_string

record world =
  files :: "js_string \<Rightarrow> js_string option"
  events :: "event list"

text \<open>
  What the outside answers in one run: the temporary directory, the identifier drawn,
  \<^verbatim>\<open>path.join\<close>, whether \<^verbatim>\<open>writeFileSync\<close> and \<^verbatim>\<open>unlinkSync\<close> throw, and the
  arguments \<^verbatim>\<open>(error, stdout, stderr)\<close> with which \<^verbatim>\<open>exec\<close> calls back.
  \<open>exec_callback = None\<close> is a child process that never terminates: \<^verbatim>\<open>exec\<close> is
  called without a timeout, so the callback is then never invoked.
\<close>

record env =
  TEMP_DIR :: js_string
  uuidv4 :: js_string
  path_join :: "js_string \<Rightarrow> js_string \<Rightarrow> js_string"
  writeFileSync_error :: "js_error option"
  exec_callback :: "(js_error option \<times> js_string \<times> js_string) option"
  unlinkSync_error :: "js_error option"

definition writeFileSync :: "env \<Rightarrow> js_string \<Rightarrow> js_string \<Rightarrow> world \<Rightarrow> (js_error + unit) \<times> world" where
  "writeFileSync ev path content w =
     (let w1 = w\<lparr>events := events w @ [WriteFileSync path content]\<rparr> in
      case writeFileSync_error ev of
        Some err \<Rightarrow> (Inl err, w1)
      | None \<Rightarrow> (Inr (), w1\<lparr>files := (files w1)(path \<mapsto> content)\<rparr>))"

definition unlinkSync :: "env \<Rightarrow> js_string \<Rightarrow> world \<Rightarrow> (js_error + unit) \<times> world" where
  "unlinkSync ev path w =
     (let w1 = w\<lparr>events := events w @ [UnlinkSync path]\<rparr> in
      case unlinkSync_error ev of
        Some err \<Rightarrow> (Inl err, w1)
      | None \<Rightarrow> (Inr (), w1\<lparr>files := (files w1)(path := None)\<rparr>))"

text \<open>
  The text that \<^verbatim>\<open>prepareTestFile\<close> appends to the validated code: the rest of the
  template literal, line by line.
\<close>

definition driver_lines :: "string list" where
  \<open>driver_lines =
    ['''',
     ''import json'',
     ''import time'',
     '''',
     ''def run_tests():'',
     ''    results = []'',
     ''    '',
     ''    try:'',
     ''        # Test case 1'',
     ''        start_time = time.time()'',
     ''        nums = [2, 7, 11, 15]'',
     ''        target = 9'',
     ''        expected = "[0, 1]"'',
     ''        '',
     ''        actual = two_sum(nums, target)'',
     ''        execution_time = time.time() - start_time'',
     ''        '',
     ''        results.append({'',
     ''            "case": 1,'',
     ''            "input": "[2, 7, 11, 15], 9",'',
     ''            "expected": "[0, 1]",'',
     ''            "actual": str(actual),'',
     ''            "passed": str(actual) == "[0, 1]",'',
     ''            "execution_time": execution_time'',
     ''        })'',
     ''        '',
     ''        # Test case 2'',
     ''        start_time = time.time()'',
     ''        nums = [3, 2, 4]'',
     ''        target = 6'',
     ''        expected = "[1, 2]"'',
     ''        '',
     ''        actual = two_sum(nums, target)'',
     ''        execution_time = time.time() - start_time'',
     ''        '',
     ''        results.append({'',
     ''            "case": 2,'',
     ''            "input": "[3, 2, 4], 6",'',
     ''            "expected": "[1, 2]",'',
     ''            "actual": str(actual),'',
     ''            "passed": str(actual) == "[1, 2]",'',
     ''            "execution_time": execution_time'',
     ''        })'',
     ''        '',
     ''        # Test case 3'',
     ''        start_time = time.time()'',
     ''        nums = [3, 3]'',
     ''        target = 6'',
     ''        expected = "[0, 1]"'',
     ''        '',
     ''        actual = two_sum(nums, target)'',
     ''        execution_time = time.time() - start_time'',
     ''        '',
     ''        results.append({'',
     ''            "case": 3,'',
     ''            "input": "[3, 3], 6",'',
     ''            "expected": "[0, 1]",'',
     ''            "actual": str(actual),'',
     ''            "passed": str(actual) == "[0, 1]",'',
     ''            "execution_time": execution_time'',
     ''        })'',
     ''    except Exception as e:'',
     ''        results.append({'',
     ''            "error": str(e)'',
     ''        })'',
     ''    '',
     ''    return results'',
     '''',
     ''# Run tests and print JSON results'',
     ''print(json.dumps(run_tests()))'']\<close>

definition driver_code :: js_string where
  "driver_code = 0x0A # concat (map (\<lambda>l. js l @ [0x0A]) driver_lines)"

text \<open>
  \<^verbatim>\<open>prepareTestFile\<close>: \<open>Inl\<close> is the exception it throws (the validation error, or
  the one \<^verbatim>\<open>writeFileSync\<close> threw).
\<close>

definition prepareTestFile ::
  "env \<Rightarrow> js_string \<Rightarrow> world \<Rightarrow> (js_error + js_string \<times> js_string option) \<times> world" where
  "prepareTestFile ev code w =
     (let filePath = path_join ev (TEMP_DIR ev) (uuidv4 ev @ js ''.py'') in
      case validateCode code of
        Invalid e \<Rightarrow> (Inl (JsError e), w)
      | Valid validatedCode msg \<Rightarrow>
          (case writeFileSync ev filePath (validatedCode @ driver_code) w of
             (Inl err, w1) \<Rightarrow> (Inl err, w1)
           | (Inr _, w1) \<Rightarrow> (Inr (filePath, msg), w1)))"

text \<open>The state of a promise; \<open>Pending\<close> is one that is never settled.\<close>

datatype 'a promise = Fulfilled 'a | Rejected js_error | Pending

text \<open>The command line \<^verbatim>\<open>python "${filePath}"\<close>.\<close>

definition python_command :: "js_string \<Rightarrow> js_string" where
  \<open>python_command filePath = js ''python "'' @ filePath @ js ''"''\<close>

text \<open>
  \<^verbatim>\<open>executeCode\<close>: the callback deletes the file first; an exception of
  \<^verbatim>\<open>unlinkSync\<close> goes to the outer \<^verbatim>\<open>catch (err)\<close>. The source never calls
  \<^verbatim>\<open>reject\<close>.
\<close>

definition executeCode ::
  "'n engine \<Rightarrow> env \<Rightarrow> js_string \<Rightarrow> js_string option \<Rightarrow> world \<Rightarrow> 'n verdict promise \<times> world" where
  "executeCode eng ev filePath msg w =
     (let w1 = w\<lparr>events := events w @ [Exec (python_command filePath)]\<rparr> in
      case exec_callback ev of
        None \<Rightarrow> (Pending, w1)
      | Some (exitError, stdout, stderr) \<Rightarrow>
          (case unlinkSync ev filePath w1 of
             (Inl err, w2) \<Rightarrow>
               (Fulfilled (failure (JStr (js ''Failed to process execution results: ''
                                          @ err_message err))), w2)
           | (Inr _, w2) \<Rightarrow> (Fulfilled (interpret_result eng exitError stdout stderr msg), w2)))"

text \<open>
  \<^verbatim>\<open>runCode\<close>: \<^verbatim>\<open>await\<close> returns the value of a fulfilled promise, throws the
  reason of a rejected one into the \<^verbatim>\<open>catch\<close>, and never resumes on a pending one.
\<close>

definition runCode :: "'n engine \<Rightarrow> env \<Rightarrow> js_string \<Rightarrow> world \<Rightarrow> 'n verdict promise \<times> world" where
  "runCode eng ev code w =
     (case prepareTestFile ev code w of
        (Inl err, w1) \<Rightarrow>
          (Fulfilled (failure (JStr (js ''Failed to execute code: '' @ err_message err))), w1)
      | (Inr (filePath, msg), w1) \<Rightarrow>
          (case executeCode eng ev filePath msg w1 of
             (Fulfilled v, w2) \<Rightarrow> (Fulfilled v, w2)
           | (Rejected err, w2) \<Rightarrow>
               (Fulfilled (failure (JStr (js ''Failed to execute code: '' @ err_message err))), w2)
           | (Pending, w2) \<Rightarrow> (Pending, w2)))"


section \<open>What the generated driver prints\<close>

text \<open>
  One call \<^verbatim>\<open>two_sum(nums, target)\<close> of the submitted function, followed by
  \<^verbatim>\<open>str(actual)\<close>: it yields that string, or raises an \<^verbatim>\<open>Exception\<close> whose
  \<^verbatim>\<open>str(e)\<close> is given. (A call that does not return, or that leaves the interpreter,
  prints nothing and is not a value of this type.)
\<close>

datatype py_outcome = Returns js_string | Raises js_string

text \<open>The dictionaries appended to \<^verbatim>\<open>results\<close>, as \<^verbatim>\<open>JSON.parse\<close> reads them back.\<close>

definition case_outcome ::
  "'n engine \<Rightarrow> nat \<Rightarrow> string \<Rightarrow> string \<Rightarrow> js_string \<Rightarrow> 'n \<Rightarrow> 'n json" where
  "case_outcome eng k input expected actual execution_time =
     JObj [(js ''case'', JNum (num_of_nat eng k)),
           (js ''input'', JStr (js input)),
           (js ''expected'', JStr (js expected)),
           (js ''actual'', JStr actual),
           (js ''passed'', JBool (actual = js expected)),
           (js ''execution_time'', JNum execution_time)]"

definition error_entry :: "js_string \<Rightarrow> 'n json" where
  "error_entry e = JObj [(js ''error'', JStr e)]"

text \<open>
  \<^verbatim>\<open>run_tests\<close> of the driver: the three cases in one \<^verbatim>\<open>try\<close>; the handler
  appends the error entry to the \<^verbatim>\<open>results\<close> collected so far. \<open>elapsed k\<close> is the
  time measured for case \<open>k\<close>.
\<close>

definition run_tests ::
  "'n engine \<Rightarrow> (int list \<Rightarrow> int \<Rightarrow> py_outcome) \<Rightarrow> (nat \<Rightarrow> 'n) \<Rightarrow> 'n json list" where
  "run_tests eng two_sum elapsed =
     (case two_sum [2, 7, 11, 15] 9 of
        Raises e \<Rightarrow> [error_entry e]
      | Returns actual1 \<Rightarrow>
          (let results1 = [case_outcome eng 1 ''[2, 7, 11, 15], 9'' ''[0, 1]'' actual1 (elapsed 1)] in
           case two_sum [3, 2, 4] 6 of
             Raises e \<Rightarrow> results1 @ [error_entry e]
           | Returns actual2 \<Rightarrow>
               (let results2 = results1 @
                      [case_outcome eng 2 ''[3, 2, 4], 6'' ''[1, 2]'' actual2 (elapsed 2)] in
                case two_sum [3, 3] 6 of
                  Raises e \<Rightarrow> results2 @ [error_entry e]
                | Returns actual3 \<Rightarrow>
                    results2 @ [case_outcome eng 3 ''[3, 3], 6'' ''[0, 1]'' actual3 (elapsed 3)])))"


section \<open>The vocabulary of the specification\<close>

text \<open>
  A line whose text, leading whitespace ignored, begins the definition of
  \<^verbatim>\<open>two_sum\<close>.
\<close>

definition begins_definition :: "js_string \<Rightarrow> bool" where
  "begins_definition line \<longleftrightarrow> startsWith (trimStart line) (js ''def two_sum'')"

definition has_definition_line :: "js_string \<Rightarrow> bool" where
  "has_definition_line code \<longleftrightarrow> list_ex begins_definition (split_nl code)"

text \<open>
  A line that begins the required definition: leading whitespace ignored, it is
  \<^verbatim>\<open>def two_sum\<close>, then an opening parenthesis (so the name is exactly
  \<^verbatim>\<open>two_sum\<close>) and a list of two parameters (one comma before the closing parenthesis).
\<close>

definition required_definition :: "js_string \<Rightarrow> bool" where
  "required_definition line \<longleftrightarrow>
     begins_definition line \<and>
     (let rest = dropWhile (\<lambda>c. c = 0x20) (drop (length (js ''def two_sum'')) (trimStart line))
      in startsWith rest (js ''('') \<and>
         length (filter (\<lambda>c. c = 0x2C) (takeWhile (\<lambda>c. c \<noteq> 0x29) rest)) = 1)"

definition has_required_definition :: "js_string \<Rightarrow> bool" where
  "has_required_definition code \<longleftrightarrow> list_ex required_definition (split_nl code)"

text \<open>
  The indented block that follows the definition line: the lines up to the first one
  that is neither indented nor blank. A statement is an indented line that is neither
  blank nor a comment.
\<close>

definition indented :: "js_string \<Rightarrow> bool" where
  "indented l \<longleftrightarrow> startsWith l (js '' '') \<or> startsWith l [0x09]"

definition blank :: "js_string \<Rightarrow> bool" where
  "blank l \<longleftrightarrow> trim l = []"

definition body_block :: "js_string list \<Rightarrow> js_string list" where
  "body_block ls = takeWhile (\<lambda>l. indented l \<or> blank l) ls"

definition statement :: "js_string \<Rightarrow> bool" where
  "statement l \<longleftrightarrow> indented l \<and> \<not> blank l \<and> \<not> startsWith (trim l) (js ''#'')"


text \<open>The temporary file of a run.\<close>

definition temp_file :: "env \<Rightarrow> js_string" where
  "temp_file ev = path_join ev (TEMP_DIR ev) (uuidv4 ev @ js ''.py'')"

text \<open>The \<^verbatim>\<open>passed\<close> flag of an outcome record, honoured as boolean or as string.\<close>

definition passed_flag :: "'n json \<Rightarrow> bool" where
  "passed_flag r \<longleftrightarrow>
     (case r of
        JObj kvs \<Rightarrow> map_of kvs (js ''passed'') = Some (JBool True) \<or>
                    map_of kvs (js ''passed'') = Some (JStr (js ''True''))
      | _ \<Rightarrow> False)"

text \<open>
  An outcome record: an object whose \<^verbatim>\<open>execution_time\<close> is a number or is missing.
  The error record: a list of one entry with a truthy \<^verbatim>\<open>error\<close>.
\<close>

definition outcome_record :: "'n json \<Rightarrow> bool" where
  "outcome_record r \<longleftrightarrow>
     (case r of
        JObj kvs \<Rightarrow> (case map_of kvs (js ''execution_time'') of
                      None \<Rightarrow> True | Some (JNum t) \<Rightarrow> True | Some _ \<Rightarrow> False)
      | _ \<Rightarrow> False)"

definition is_error_record :: "'n engine \<Rightarrow> 'n json list \<Rightarrow> bool" where
  "is_error_record eng rs \<longleftrightarrow>
     (case rs of
        [JObj kvs] \<Rightarrow> truthy eng (map_of kvs (js ''error''))
      | _ \<Rightarrow> False)"


text \<open>
  A failure at one of the stages of a run: validation, writing the file, the launch or
  exit of the process, the deletion of the file, the parsing of the output.
\<close>

definition stage_failure :: "'n engine \<Rightarrow> env \<Rightarrow> js_string \<Rightarrow> bool" where
  "stage_failure eng ev code \<longleftrightarrow>
     (case validateCode code of
        Invalid e \<Rightarrow> True
      | Valid validatedCode msg \<Rightarrow>
          writeFileSync_error ev \<noteq> None \<or>
          (case exec_callback ev of
             None \<Rightarrow> False
           | Some (exitError, stdout, stderr) \<Rightarrow>
               unlinkSync_error ev \<noteq> None \<or> exitError \<noteq> None \<or>
               isl (process_output eng stdout msg)))"

text \<open>The run gets past the child process: it stops before the launch, or the process ends.\<close>

definition process_ends :: "env \<Rightarrow> js_string \<Rightarrow> bool" where
  "process_ends ev code \<longleftrightarrow>
     (case validateCode code of
        Invalid e \<Rightarrow> True
      | Valid validatedCode msg \<Rightarrow>
          writeFileSync_error ev \<noteq> None \<or> exec_callback ev \<noteq> None)"


section \<open>A runtime and an outside world for closed examples\<close>

text \<open>
  Numbers are integers (ten-thousandths of a second); the parser knows the finitely many
  texts of a table and rejects every other.
\<close>

definition table_engine :: "(js_string \<times> int json) list \<Rightarrow> int engine" where
  "table_engine table =
     \<lparr>JSON_parse = (\<lambda>s. case map_of table s of
                           Some v \<Rightarrow> Inr v
                         | None \<Rightarrow> Inl (JsError (js ''Unexpected token''))),
      num_of_nat = (\<lambda>k. 10000 * int k),
      num_falsy = (\<lambda>n. n = 0),
      num_add = (\<lambda>a b. a + b),
      toFixed4 = (\<lambda>n. js ''0.0000''),
      string_plus = (\<lambda>a b. Inr (js ''0[object Object]'')),
      TypeError_message = (\<lambda>f. js ''not an object'')\<rparr>"

definition run_env ::
  "js_error option \<Rightarrow> (js_error option \<times> js_string \<times> js_string) option \<Rightarrow> js_error option \<Rightarrow> env" where
  "run_env write_error callback unlink_error =
     \<lparr>TEMP_DIR = js ''/tmp'',
      uuidv4 = js ''1b9d6bcd'',
      path_join = (\<lambda>dir file. dir @ js ''/'' @ file),
      writeFileSync_error = write_error,
      exec_callback = callback,
      unlinkSync_error = unlink_error\<rparr>"

definition empty_world :: world where
  "empty_world = \<lparr>files = (\<lambda>p. None), events = []\<rparr>"

text \<open>Submissions used in the closed examples.\<close>

definition solution_code :: js_string where
  "solution_code =
     js ''def two_sum(nums, target):'' @ [0x0A] @
     js ''    for i in range(len(nums)):'' @ [0x0A] @
     js ''        for j in range(i + 1, len(nums)):'' @ [0x0A] @
     js ''            if nums[i] + nums[j] == target:'' @ [0x0A] @
     js ''                return [i, j]''"

definition looping_code :: js_string where
  "looping_code = js ''def two_sum(nums, target):'' @ [0x0A] @ js ''    while True: pass''"

definition one_line_code :: js_string where
  "one_line_code = js ''def two_sum(nums, target): return [0, 1]''"

definition self_deleting_code :: js_string where
  "self_deleting_code =
     js ''import os'' @ [0x0A] @
     js ''os.remove(__file__)'' @ [0x0A] @
     js ''def two_sum(nums, target):'' @ [0x0A] @
     js ''    return [0, 1]'' @ [0x0A] @
     js ''raise SystemExit(1)''"

definition helper_code :: js_string where
  "helper_code = js ''def two_sum_helper(a, b, c):'' @ [0x0A] @ js ''    return [0, 1]''"

definition exiting_code :: js_string where
  "exiting_code =
     js ''def two_sum(nums, target):'' @ [0x0A] @
     js ''    return [0, 1]'' @ [0x0A] @
     js ''raise SystemExit(1)''"


text \<open>
  What \<^verbatim>\<open>exec\<close> reports for a child that exits with status 1, with and without text
  on its standard error; an error of \<^verbatim>\<open>unlinkSync\<close>; and three behaviours of
  \<^verbatim>\<open>two_sum\<close>: it returns \<^verbatim>\<open>None\<close>, it answers \<^verbatim>\<open>[0, 1]\<close> but raises on the list
  of three numbers, it answers every case correctly.
\<close>

definition crash_callback :: "js_error option \<times> js_string \<times> js_string" where
  "crash_callback =
     (Some (JsError (js ''Command failed: python'')), [],
      js ''IndentationError: unexpected indent'')"

definition exit_callback :: "js_error option \<times> js_string \<times> js_string" where
  "exit_callback = (Some (JsError (js ''Command failed: python'')), [], [])"

definition missing_file_error :: js_error where
  "missing_file_error = JsError (js ''ENOENT: no such file or directory, unlink'')"


definition raises_on_three :: "int list \<Rightarrow> int \<Rightarrow> py_outcome" where
  "raises_on_three nums target =
     (if length nums = 3 then Raises (js ''boom'') else Returns (js ''[0, 1]''))"

definition no_time :: "nat \<Rightarrow> int" where
  "no_time k = 0"

definition correct_two_sum :: "int list \<Rightarrow> int \<Rightarrow> py_outcome" where
  "correct_two_sum nums target =
     Returns (if nums = [3, 2, 4] then js ''[1, 2]'' else js ''[0, 1]'')"

text \<open>
  The lines these calls make the driver print (with every measured time zero).
\<close>

definition all_pass_output :: js_string where
  \<open>all_pass_output =
     js ''[{"case": 1, "input": "[2, 7, 11, 15], 9", "expected": "[0, 1]", "actu'' @
     js ''al": "[0, 1]", "passed": true, "execution_time": 0.0}, {"case": 2, "in'' @
     js ''put": "[3, 2, 4], 6", "expected": "[1, 2]", "actual": "[1, 2]", "passe'' @
     js ''d": true, "execution_time": 0.0}, {"case": 3, "input": "[3, 3], 6", "e'' @
     js ''xpected": "[0, 1]", "actual": "[0, 1]", "passed": true, "execution_tim'' @
     js ''e": 0.0}]''\<close>


definition boom_output :: js_string where
  \<open>boom_output =
     js ''[{"case": 1, "input": "[2, 7, 11, 15], 9", "expected": "[0, 1]", "actu'' @
     js ''al": "[0, 1]", "passed": true, "execution_time": 0.0}, {"error": "boom'' @
     js ''"}]''\<close>

text \<open>
  The line printed when the call of \<^verbatim>\<open>two_sum\<close> finds no such function, and a line
  that is a list of numbers.
\<close>

definition name_error_text :: js_string where
  "name_error_text = js ''name '' @ [0x27] @ js ''two_sum'' @ [0x27] @ js '' is not defined''"

definition name_error_output :: js_string where
  \<open>name_error_output = js ''[{"error": "name '' @ [0x27] @ js ''two_sum'' @ [0x27] @
     js '' is not defined"}]''\<close>



text \<open>A runtime whose parser reads the one text \<open>printed\<close> as the list \<open>rs\<close>.\<close>

definition reading_engine :: "js_string \<Rightarrow> int json list \<Rightarrow> int engine" where
  "reading_engine printed rs = table_engine [(printed, JArr rs)]"


section \<open>Strings and lines\<close>

lemma startsWith_iff: "startsWith s p \<longleftrightarrow> (\<exists>r. s = p @ r)"
  unfolding startsWith_def by (metis append_eq_conv_conj)

lemma trim_decomp:
  "dropWhile is_whitespace s = trim s @ rev (takeWhile is_whitespace (rev (dropWhile is_whitespace s)))"
  unfolding trim_def by (metis rev_append rev_rev_ident takeWhile_dropWhile_id)

lemma def_prefix_last: "\<not> is_whitespace (last (js ''def two_sum''))"
  by (simp add: js_def is_whitespace_def)

lemma rev_dropWhile_keeps:
  assumes "p \<noteq> []" "\<not> P (last p)"
  shows "\<exists>r'. rev (dropWhile P (rev (p @ r))) = p @ r'"
proof -
  have "dropWhile P (rev p) = rev p"
    using assms by (cases p rule: rev_cases) auto
  then have "\<exists>q. dropWhile P (rev r @ rev p) = q @ rev p"
    by (auto simp: dropWhile_append)
  then obtain q where "dropWhile P (rev (p @ r)) = q @ rev p" by auto
  then show ?thesis by simp
qed

lemma startsWith_trim:
  assumes "p \<noteq> []" "\<not> is_whitespace (last p)"
  shows "startsWith (trim s) p \<longleftrightarrow> startsWith (trimStart s) p"
proof
  assume "startsWith (trim s) p"
  then obtain r where "trim s = p @ r" by (auto simp: startsWith_iff)
  then show "startsWith (trimStart s) p"
    using trim_decomp [of s] by (auto simp: startsWith_iff trimStart_def)
next
  assume "startsWith (trimStart s) p"
  then obtain r where "dropWhile is_whitespace s = p @ r"
    by (auto simp: startsWith_iff trimStart_def)
  then show "startsWith (trim s) p"
    using rev_dropWhile_keeps [of p is_whitespace r] assms by (auto simp: startsWith_iff trim_def)
qed

lemma is_function_line_eq: "is_function_line = begins_definition"
proof
  fix l
  have "js ''def two_sum'' \<noteq> []" by (simp add: js_def)
  then show "is_function_line l = begins_definition l"
    unfolding is_function_line_def begins_definition_def
    by (rule startsWith_trim [OF _ def_prefix_last])
qed

lemma findIndex_None: "findIndex P xs = None \<longleftrightarrow> \<not> list_ex P xs"
  by (induction xs) auto

lemma findIndex_Some:
  "findIndex P xs = Some i \<Longrightarrow> i < length xs \<and> P (xs ! i) \<and> \<not> list_ex P (take i xs)"
  by (induction xs arbitrary: i) (auto split: if_splits)

lemma findIndex_Some_ex: "findIndex P xs = Some i \<Longrightarrow> list_ex P xs"
  by (induction xs arbitrary: i) (auto split: if_splits)



lemma validateCode_valid_iff:
  "has_definition_line code \<longleftrightarrow> (\<exists>c m. validateCode code = Valid c m)"
  by (auto simp: validateCode_def has_definition_line_def is_function_line_eq Let_def
        findIndex_None dest: findIndex_Some_ex split: option.splits)

lemma validateCode_invalid:
  "\<not> has_definition_line code \<Longrightarrow> validateCode code = Invalid no_function_error"
  by (auto simp: validateCode_def has_definition_line_def is_function_line_eq Let_def
        findIndex_None dest: findIndex_Some_ex split: option.splits)


lemma validateCode_message:
  "validateCode code = Valid c (Some m) \<Longrightarrow> m = empty_function_message"
  by (auto simp: validateCode_def Let_def split: option.splits if_splits)

lemma split_from_nonempty: "split_from p s \<noteq> []"
  by (induction s arbitrary: p) auto

lemma join_nl_Cons: "ls \<noteq> [] \<Longrightarrow> join_nl (l # ls) = l @ 0x0A # join_nl ls"
  by (cases ls) auto

lemma join_split_from: "join_nl (split_from p s) = p @ s"
  by (induction s arbitrary: p) (auto simp: join_nl_Cons split_from_nonempty)

lemma join_split: "join_nl (split_nl s) = s"
  by (simp add: split_nl_def join_split_from)


section \<open>The paths of a run\<close>

lemma prepareTestFile_invalid:
  "validateCode code = Invalid e \<Longrightarrow> prepareTestFile ev code w = (Inl (JsError e), w)"
  by (simp add: prepareTestFile_def)

lemma prepareTestFile_write_fails:
  "validateCode code = Valid c m \<Longrightarrow> writeFileSync_error ev = Some err \<Longrightarrow>
   prepareTestFile ev code w =
     (Inl err, w\<lparr>events := events w @ [WriteFileSync (temp_file ev) (c @ driver_code)]\<rparr>)"
  by (simp add: prepareTestFile_def writeFileSync_def temp_file_def Let_def)

lemma prepareTestFile_ok:
  "validateCode code = Valid c m \<Longrightarrow> writeFileSync_error ev = None \<Longrightarrow>
   prepareTestFile ev code w =
     (Inr (temp_file ev, m),
      w\<lparr>events := events w @ [WriteFileSync (temp_file ev) (c @ driver_code)],
        files := (files w)(temp_file ev \<mapsto> c @ driver_code)\<rparr>)"
  by (simp add: prepareTestFile_def writeFileSync_def temp_file_def Let_def)

lemma runCode_invalid:
  "validateCode code = Invalid e \<Longrightarrow>
   runCode eng ev code w = (Fulfilled (failure (JStr (js ''Failed to execute code: '' @ e))), w)"
  by (simp add: runCode_def prepareTestFile_invalid)

lemma runCode_write_fails:
  "validateCode code = Valid c m \<Longrightarrow> writeFileSync_error ev = Some err \<Longrightarrow>
   runCode eng ev code w =
     (Fulfilled (failure (JStr (js ''Failed to execute code: '' @ err_message err))),
      w\<lparr>events := events w @ [WriteFileSync (temp_file ev) (c @ driver_code)]\<rparr>)"
  by (simp add: runCode_def prepareTestFile_write_fails)

lemma runCode_pending:
  "validateCode code = Valid c m \<Longrightarrow> writeFileSync_error ev = None \<Longrightarrow>
   exec_callback ev = None \<Longrightarrow>
   runCode eng ev code w =
     (Pending,
      w\<lparr>events := events w @ [WriteFileSync (temp_file ev) (c @ driver_code),
                               Exec (python_command (temp_file ev))],
        files := (files w)(temp_file ev \<mapsto> c @ driver_code)\<rparr>)"
  by (simp add: runCode_def prepareTestFile_ok executeCode_def)

lemma runCode_unlink_fails:
  "validateCode code = Valid c m \<Longrightarrow> writeFileSync_error ev = None \<Longrightarrow>
   exec_callback ev = Some (exitError, stdout, stderr) \<Longrightarrow> unlinkSync_error ev = Some err \<Longrightarrow>
   runCode eng ev code w =
     (Fulfilled (failure (JStr (js ''Failed to process execution results: '' @ err_message err))),
      w\<lparr>events := events w @ [WriteFileSync (temp_file ev) (c @ driver_code),
                               Exec (python_command (temp_file ev)),
                               UnlinkSync (temp_file ev)],
        files := (files w)(temp_file ev \<mapsto> c @ driver_code)\<rparr>)"
  by (simp add: runCode_def prepareTestFile_ok executeCode_def unlinkSync_def)

lemma runCode_interpreted:
  "validateCode code = Valid c m \<Longrightarrow> writeFileSync_error ev = None \<Longrightarrow>
   exec_callback ev = Some (exitError, stdout, stderr) \<Longrightarrow> unlinkSync_error ev = None \<Longrightarrow>
   runCode eng ev code w =
     (Fulfilled (interpret_result eng exitError stdout stderr m),
      w\<lparr>events := events w @ [WriteFileSync (temp_file ev) (c @ driver_code),
                               Exec (python_command (temp_file ev)),
                               UnlinkSync (temp_file ev)],
        files := (files w)(temp_file ev := None)\<rparr>)"
  by (simp add: runCode_def prepareTestFile_ok executeCode_def unlinkSync_def)


section \<open>The shape of a Verdict\<close>

lemma failure_simps:
  "success (failure e) = False" "error (failure e) = Some e" "output_text (failure e) = None"
  "testResults (failure e) = None" "executionTime (failure e) = None" "message (failure e) = None"
  by (simp_all add: failure_def)

lemma every_passed_True: "every_passed rs = Inr True \<Longrightarrow> list_all passed_flag rs"
proof (induction rs)
  case Nil
  show ?case by simp
next
  case (Cons r rs)
  then show ?case
    by (cases r) (auto simp: passed_flag_def is_passed_def split: if_splits)
qed

lemma every_passed_objects:
  "list_all outcome_record rs \<Longrightarrow> every_passed rs = Inr (list_all passed_flag rs)"
proof (induction rs)
  case Nil
  show ?case by simp
next
  case (Cons r rs)
  then show ?case
    by (cases r) (auto simp: passed_flag_def is_passed_def outcome_record_def)
qed

lemma outcome_record_cases:
  assumes "outcome_record r"
  shows "\<exists>kvs. r = JObj kvs \<and>
           (map_of kvs (js ''execution_time'') = None \<or>
            (\<exists>t. map_of kvs (js ''execution_time'') = Some (JNum t)))"
proof (cases r)
  case (JObj kvs)
  show ?thesis
  proof (cases "map_of kvs (js ''execution_time'')")
    case None
    with JObj show ?thesis by simp
  next
    case (Some x)
    with JObj assms show ?thesis
      by (cases x) (simp_all add: outcome_record_def)
  qed
qed (use assms in \<open>simp_all add: outcome_record_def\<close>)

lemma or_zero_number:
  "x = None \<or> (\<exists>t. x = Some (JNum t)) \<Longrightarrow> \<exists>n. or_zero eng x = JNum n"
  by (auto simp: or_zero_def)

lemma reduce_time_numbers:
  "list_all outcome_record rs \<Longrightarrow> \<exists>n. reduce_time eng (JNum a) rs = Inr (JNum n)"
proof (induction rs arbitrary: a)
  case Nil
  show ?case by simp
next
  case (Cons r rs)
  from Cons.prems have rest: "list_all outcome_record rs" and "outcome_record r"
    by simp_all
  from outcome_record_cases [OF this(2)] obtain kvs where r: "r = JObj kvs"
    and t: "map_of kvs (js ''execution_time'') = None \<or> (\<exists>t. map_of kvs (js ''execution_time'') = Some (JNum t))"
    by blast
  from or_zero_number [OF t] obtain n where n: "or_zero eng (map_of kvs (js ''execution_time'')) = JNum n"
    by blast
  show ?case
    using Cons.IH [OF rest] by (simp add: r n js_plus_def)
qed

lemma aggregate_shape:
  assumes "aggregate eng results msg = Inr v"
  shows "\<exists>rs t. results = JArr rs \<and> every_passed rs = Inr (success v) \<and>
           error v = None \<and>
           output_text v = Some (if success v then all_passed_text else some_failed_text) \<and>
           testResults v = Some (JArr rs) \<and> executionTime v = Some t \<and>
           message v = (case msg of None \<Rightarrow> None | Some m \<Rightarrow> if m \<noteq> [] then Some m else None)"
  using assms
  by (cases results) (auto simp: aggregate_def split: sum.splits)

lemma process_output_cases:
  assumes "process_output eng stdout msg = Inr v"
  shows "(\<exists>e. v = failure e) \<or> (\<exists>results. aggregate eng results msg = Inr v)"
  using assms
  by (auto simp: process_output_def split: sum.splits option.splits)

lemma interpret_result_cases:
  "(\<exists>e. interpret_result eng x out err msg = failure e) \<or>
   (\<exists>results. aggregate eng results msg = Inr (interpret_result eng x out err msg))"
  using process_output_cases [of eng out msg]
  by (auto simp: interpret_result_def split: option.splits sum.splits)


section \<open>Validation of a submission\<close>

lemma js_literal_nonempty: "js (c # cs) \<noteq> []"
  by (simp add: js_def)

lemma helper_line_begins: "begins_definition (js ''    def two_sum_helper(a, b, c):'')"
  by (simp add: begins_definition_def trimStart_def startsWith_def js_def is_whitespace_def)

lemma print_line_not_definition: "\<not> has_definition_line (js ''print(two_sum)'')"
  by (simp add: has_definition_line_def split_nl_def begins_definition_def trimStart_def
      startsWith_def js_def is_whitespace_def)

text \<open>
  C10. \<^verbatim>\<open>validateCode\<close> accepts every submission that has a line whose text, leading
  whitespace removed, begins with the characters \<^verbatim>\<open>def two_sum\<close>, whatever follows on
  that line: a longer name such as \<^verbatim>\<open>def two_sum_helper\<close> or another number of
  parameters is accepted as well, since only the prefix is compared.
\<close>

theorem validateCode_prefix_only:
  "has_definition_line code \<Longrightarrow>
     (\<exists>c m. validateCode code = Valid c m) \<and> validateCode code \<noteq> Invalid no_function_error"
  using validateCode_valid_iff [of code] by auto

theorem validateCode_prefix_only_witness:
  "has_definition_line (js ''import os'' @ [0x0A] @ js ''    def two_sum_helper(a, b, c):'') \<and>
   (\<exists>c m. validateCode (js ''import os'' @ [0x0A] @ js ''    def two_sum_helper(a, b, c):'')
            = Valid c m)"
proof -
  have split: "split_nl (js ''import os'' @ [0x0A] @ js ''    def two_sum_helper(a, b, c):'')
      = [js ''import os'', js ''    def two_sum_helper(a, b, c):'']"
    by (simp add: split_nl_def js_def)
  have h: "has_definition_line (js ''import os'' @ [0x0A] @ js ''    def two_sum_helper(a, b, c):'')"
    unfolding has_definition_line_def split by (simp add: helper_line_begins)
  from validateCode_prefix_only [OF h] h show ?thesis by blast
qed


section \<open>Evaluating the examples\<close>

lemmas line_simps = split_nl_def js_def is_function_line_def trim_def startsWith_def
  is_whitespace_def

lemmas word_simps = begins_definition_def trimStart_def trim_def startsWith_def js_def
  is_whitespace_def body_block_def indented_def blank_def statement_def

lemma validateCode_solution: "validateCode solution_code = Valid solution_code None"
  by (simp add: validateCode_def solution_code_def line_simps)

lemma validateCode_looping: "validateCode looping_code = Valid looping_code None"
  by (simp add: validateCode_def looping_code_def line_simps)

lemma validateCode_one_line:
  "validateCode one_line_code =
     Valid (one_line_code @ [0x0A] @ pass_line) (Some empty_function_message)"
  by (simp add: validateCode_def one_line_code_def line_simps splice_insert_def)

lemma validateCode_self_deleting:
  "validateCode self_deleting_code = Valid self_deleting_code None"
  by (simp add: validateCode_def self_deleting_code_def line_simps)





lemma run_env_simps:
  "TEMP_DIR (run_env a b c) = js ''/tmp''"
  "uuidv4 (run_env a b c) = js ''1b9d6bcd''"
  "writeFileSync_error (run_env a b c) = a"
  "exec_callback (run_env a b c) = b"
  "unlinkSync_error (run_env a b c) = c"
  by (simp_all add: run_env_def)

lemma run_env_clean:
  "writeFileSync_error (run_env None (Some (None, out, err)) None) = None"
  "exec_callback (run_env None (Some (None, out, err)) None) = Some (None, out, err)"
  "unlinkSync_error (run_env None (Some (None, out, err)) None) = None"
  by (simp_all add: run_env_simps)

lemma table_engine_simps:
  "JSON_parse (table_engine table) s =
     (case map_of table s of Some v \<Rightarrow> Inr v | None \<Rightarrow> Inl (JsError (js ''Unexpected token'')))"
  "num_of_nat (table_engine table) k = 10000 * int k"
  "num_falsy (table_engine table) n = (n = 0)"
  by (simp_all add: table_engine_def)

lemma reading_engine_parse: "JSON_parse (reading_engine printed rs) printed = Inr (JArr rs)"
  by (simp add: reading_engine_def table_engine_simps)


section \<open>The interpretation of the output\<close>

lemma interpret_result_failed_stage:
  assumes "x \<noteq> None \<or> isl (process_output eng out m)"
  shows "\<not> success (interpret_result eng x out err m) \<and>
         (\<exists>d. error (interpret_result eng x out err m) = Some (JStr d))"
proof (cases x)
  case (Some e)
  then show ?thesis by (simp add: interpret_result_def failure_simps)
next
  case None
  with assms obtain e where "process_output eng out m = Inl e"
    by (cases "process_output eng out m") auto
  with None show ?thesis by (simp add: interpret_result_def failure_simps)
qed

lemma error_record_none:
  assumes "list_all outcome_record rs" and "\<not> is_error_record eng rs"
  shows "error_record eng (JArr rs) = Inr None"
proof (cases rs)
  case Nil
  then show ?thesis by (simp add: error_record_def)
next
  case (Cons r rest)
  show ?thesis
  proof (cases rest)
    case Nil
    from assms(1) Cons have "outcome_record r" by simp
    from outcome_record_cases [OF this] obtain kvs where "r = JObj kvs" by blast
    with assms(2) Cons Nil show ?thesis
      by (simp add: error_record_def is_error_record_def)
  next
    case (Cons r' rest')
    with \<open>rs = r # rest\<close> show ?thesis by (simp add: error_record_def)
  qed
qed

lemma aggregate_outcomes:
  assumes "list_all outcome_record rs"
  shows "\<exists>t. aggregate eng (JArr rs) msg =
           Inr \<lparr>success = list_all passed_flag rs, error = None,
                output_text = Some (if list_all passed_flag rs then all_passed_text
                                    else some_failed_text),
                testResults = Some (JArr rs), executionTime = Some t,
                message = (case msg of None \<Rightarrow> None
                           | Some m \<Rightarrow> if m \<noteq> [] then Some m else None)\<rparr>"
proof -
  from reduce_time_numbers [OF assms] obtain n
    where "reduce_time eng (JNum (num_of_nat eng 0)) rs = Inr (JNum n)" by blast
  then show ?thesis
    by (simp add: aggregate_def every_passed_objects [OF assms])
qed

lemma interpret_result_outcomes:
  assumes "JSON_parse eng stdout = Inr (JArr rs)" and "list_all outcome_record rs"
    and "\<not> is_error_record eng rs"
  shows "\<exists>t. interpret_result eng None stdout stderr msg =
           \<lparr>success = list_all passed_flag rs, error = None,
            output_text = Some (if list_all passed_flag rs then all_passed_text
                                else some_failed_text),
            testResults = Some (JArr rs), executionTime = Some t,
            message = (case msg of None \<Rightarrow> None
                       | Some m \<Rightarrow> if m \<noteq> [] then Some m else None)\<rparr>"
proof -
  from aggregate_outcomes [OF assms(2), of eng msg] obtain t where
    "aggregate eng (JArr rs) msg =
           Inr \<lparr>success = list_all passed_flag rs, error = None,
                output_text = Some (if list_all passed_flag rs then all_passed_text
                                    else some_failed_text),
                testResults = Some (JArr rs), executionTime = Some t,
                message = (case msg of None \<Rightarrow> None
                           | Some m \<Rightarrow> if m \<noteq> [] then Some m else None)\<rparr>" by blast
  then show ?thesis
    by (simp add: interpret_result_def process_output_def assms(1)
        error_record_none [OF assms(2,3)])
qed

lemma texts_differ: "all_passed_text \<noteq> some_failed_text"
  by (simp add: all_passed_text_def some_failed_text_def js_def)



lemma runCode_fulfilled_cases:
  assumes "runCode eng ev code w = (Fulfilled v, w')"
  shows "(\<exists>e. v = failure e) \<or>
         (\<exists>c m results. validateCode code = Valid c m \<and> aggregate eng results m = Inr v)"
proof (cases "validateCode code")
  case (Invalid e)
  with assms show ?thesis by (auto simp: runCode_invalid)
next
  case (Valid c m)
  show ?thesis
  proof (cases "writeFileSync_error ev")
    case (Some e)
    with Valid assms show ?thesis by (auto simp: runCode_write_fails)
  next
    case None
    note written = this
    show ?thesis
    proof (cases "exec_callback ev")
      case None
      with Valid written assms show ?thesis by (simp add: runCode_pending)
    next
      case (Some cb)
      then obtain x out err where cb: "exec_callback ev = Some (x, out, err)"
        by (cases cb) auto
      show ?thesis
      proof (cases "unlinkSync_error ev")
        case (Some e)
        with Valid written cb assms show ?thesis by (auto simp: runCode_unlink_fails)
      next
        case None
        with Valid written cb assms have "v = interpret_result eng x out err m"
          by (simp add: runCode_interpreted)
        with interpret_result_cases [of eng x out err m] Valid show ?thesis by auto
      qed
    qed
  qed
qed


section \<open>The lists the driver prints\<close>

lemma case_outcome_record: "outcome_record (case_outcome eng k input expected actual t)"
  by (simp add: outcome_record_def case_outcome_def js_def)

lemma error_entry_record: "outcome_record (error_entry e)"
  by (simp add: outcome_record_def error_entry_def js_def)

lemma run_tests_outcome_records: "list_all outcome_record (run_tests eng f elapsed)"
  by (simp add: run_tests_def Let_def case_outcome_record error_entry_record
      split: py_outcome.splits)

lemma run_tests_correct:
  "run_tests eng correct_two_sum elapsed =
     [case_outcome eng 1 ''[2, 7, 11, 15], 9'' ''[0, 1]'' (js ''[0, 1]'') (elapsed 1),
      case_outcome eng 2 ''[3, 2, 4], 6'' ''[1, 2]'' (js ''[1, 2]'') (elapsed 2),
      case_outcome eng 3 ''[3, 3], 6'' ''[0, 1]'' (js ''[0, 1]'') (elapsed 3)]"
  by (simp add: run_tests_def correct_two_sum_def Let_def)

lemma case_outcome_passed: "passed_flag (case_outcome eng k input expected actual t) \<longleftrightarrow> actual = js expected"
  by (simp add: passed_flag_def case_outcome_def js_def)

lemma error_entry_not_passed: "\<not> passed_flag (error_entry e)"
  by (simp add: passed_flag_def error_entry_def js_def)

lemma not_error_record_long: "\<not> is_error_record eng (r # r' # rs)"
  by (simp add: is_error_record_def split: json.splits list.splits)

lemma run_tests_correct_passed: "list_all passed_flag (run_tests eng correct_two_sum elapsed)"
  by (simp add: run_tests_correct case_outcome_passed)

lemma run_tests_correct_no_error: "\<not> is_error_record eng' (run_tests eng correct_two_sum elapsed)"
  by (simp add: run_tests_correct not_error_record_long)


lemma run_tests_raises_first:
  "two_sum [2, 7, 11, 15] 9 = Raises e \<Longrightarrow> run_tests eng two_sum elapsed = [error_entry e]"
  by (simp add: run_tests_def)

lemma run_tests_raises_second:
  "two_sum [2, 7, 11, 15] 9 = Returns actual1 \<Longrightarrow> two_sum [3, 2, 4] 6 = Raises e \<Longrightarrow>
   run_tests eng two_sum elapsed =
     [case_outcome eng 1 ''[2, 7, 11, 15], 9'' ''[0, 1]'' actual1 (elapsed 1), error_entry e]"
  by (simp add: run_tests_def Let_def)

lemma run_tests_raises_third:
  "two_sum [2, 7, 11, 15] 9 = Returns actual1 \<Longrightarrow> two_sum [3, 2, 4] 6 = Returns actual2 \<Longrightarrow>
   two_sum [3, 3] 6 = Raises e \<Longrightarrow>
   run_tests eng two_sum elapsed =
     [case_outcome eng 1 ''[2, 7, 11, 15], 9'' ''[0, 1]'' actual1 (elapsed 1),
      case_outcome eng 2 ''[3, 2, 4], 6'' ''[1, 2]'' actual2 (elapsed 2), error_entry e]"
  by (simp add: run_tests_def Let_def)

lemma raises_on_three_calls:
  "raises_on_three [2, 7, 11, 15] 9 = Returns (js ''[0, 1]'')"
  "raises_on_three [3, 2, 4] 6 = Raises (js ''boom'')"
  by (simp_all add: raises_on_three_def)


section \<open>The pipeline always answers, unless the child hangs\<close>

text \<open>
  C1 (as amended). \<^verbatim>\<open>runCode\<close> never lets an exception escape and its promise is never
  rejected. Whenever the run gets past the child process (validation or the writing of the
  file fails before the launch, or the launched process ends and \<^verbatim>\<open>exec\<close> calls back),
  it returns a Verdict, and a failure at any stage (validation, writing the file, launch or
  exit of the process, deletion of the file, parsing of the output) gives a Verdict with
  \<^verbatim>\<open>success\<close> false and a text in \<^verbatim>\<open>error\<close>. When the launched process never ends
  the promise stays pending: \<^verbatim>\<open>exec\<close> is called without a timeout.
\<close>

theorem runCode_returns_verdict:
  "(\<forall>err. fst (runCode eng ev code w) \<noteq> Rejected err) \<and>
   (process_ends ev code \<longrightarrow>
      (\<exists>v. fst (runCode eng ev code w) = Fulfilled v \<and>
           (stage_failure eng ev code \<longrightarrow> \<not> success v \<and> (\<exists>d. error v = Some (JStr d))))) \<and>
   (\<not> process_ends ev code \<longrightarrow> fst (runCode eng ev code w) = Pending)"
proof (cases "validateCode code")
  case (Invalid e)
  then show ?thesis
    by (simp add: runCode_invalid process_ends_def stage_failure_def failure_simps)
next
  case (Valid c m)
  show ?thesis
  proof (cases "writeFileSync_error ev")
    case (Some e)
    with Valid show ?thesis
      by (simp add: runCode_write_fails process_ends_def stage_failure_def failure_simps)
  next
    case None
    note written = this
    show ?thesis
    proof (cases "exec_callback ev")
      case None
      with Valid written show ?thesis
        by (simp add: runCode_pending process_ends_def)
    next
      case (Some cb)
      then obtain x out err where cb: "exec_callback ev = Some (x, out, err)"
        by (cases cb) auto
      show ?thesis
      proof (cases "unlinkSync_error ev")
        case (Some e)
        with Valid written cb show ?thesis
          by (simp add: runCode_unlink_fails process_ends_def stage_failure_def failure_simps)
      next
        case None
        with Valid written cb show ?thesis
          using interpret_result_failed_stage [of x eng out m err]
          by (simp add: runCode_interpreted process_ends_def stage_failure_def)
      qed
    qed
  qed
qed

theorem runCode_returns_verdict_witness:
  "process_ends (run_env (Some (JsError (js ''ENOSPC: no space left on device''))) None None)
     solution_code \<and>
   stage_failure (table_engine []) (run_env (Some (JsError (js ''ENOSPC: no space left on device''))) None None)
     solution_code \<and>
   (\<exists>v. fst (runCode (table_engine [])
            (run_env (Some (JsError (js ''ENOSPC: no space left on device''))) None None)
            solution_code empty_world) = Fulfilled v \<and>
        \<not> success v \<and> (\<exists>d. error v = Some (JStr d))) \<and>
   \<not> process_ends (run_env None None None) looping_code \<and>
   fst (runCode (table_engine []) (run_env None None None) looping_code empty_world) = Pending"
proof -
  let ?ev = "run_env (Some (JsError (js ''ENOSPC: no space left on device''))) None None"
  have p: "process_ends ?ev solution_code"
    by (simp add: process_ends_def validateCode_solution run_env_simps)
  have s: "stage_failure (table_engine []) ?ev solution_code"
    by (simp add: stage_failure_def validateCode_solution run_env_simps)
  have h: "\<not> process_ends (run_env None None None) looping_code"
    by (simp add: process_ends_def validateCode_looping run_env_simps)
  from runCode_returns_verdict [of "table_engine []" ?ev solution_code empty_world] p s
    runCode_returns_verdict [of "table_engine []" "run_env None None None" looping_code
      empty_world] h
  show ?thesis by blast
qed

text \<open>
  The claim without the proviso fails: for a submission whose function loops forever the
  callback of \<^verbatim>\<open>exec\<close> is never invoked, and \<^verbatim>\<open>runCode\<close> returns no Verdict.
\<close>

theorem runCode_hanging_child_counterexample:
  "validateCode looping_code = Valid looping_code None \<and>
   fst (runCode (table_engine []) (run_env None None None) looping_code empty_world) = Pending"
  by (simp add: validateCode_looping runCode_pending [OF validateCode_looping] run_env_simps)


section \<open>Deleting the temporary file\<close>

text \<open>
  C3 (as amended). In every run whose process ends, the deletion of the run's temporary
  file is attempted right after the process has ended and before its outcome is looked
  at, whatever that outcome is (clean exit, exit error, output that does not parse): the
  calls made are the write, the launch and the deletion, in this order. When the deletion
  succeeds the file no longer exists and the Verdict is the interpretation of the outcome.
  When the deletion fails the Verdict is \<^verbatim>\<open>success\<close> false with the error
  \<^verbatim>\<open>Failed to process execution results:\<close> followed by the message of the deletion
  error, whatever the process reported: its exit error and standard error are not in the
  Verdict.
\<close>

theorem runCode_cleanup:
  assumes "validateCode code = Valid c m" and "writeFileSync_error ev = None"
    and "exec_callback ev = Some (exitError, stdout, stderr)"
  shows "events (snd (runCode eng ev code w)) =
           events w @ [WriteFileSync (temp_file ev) (c @ driver_code),
                       Exec (python_command (temp_file ev)),
                       UnlinkSync (temp_file ev)] \<and>
         (unlinkSync_error ev = None \<longrightarrow>
            files (snd (runCode eng ev code w)) (temp_file ev) = None \<and>
            fst (runCode eng ev code w) =
              Fulfilled (interpret_result eng exitError stdout stderr m)) \<and>
         (\<forall>err. unlinkSync_error ev = Some err \<longrightarrow>
            fst (runCode eng ev code w) =
              Fulfilled (failure (JStr (js ''Failed to process execution results: ''
                                        @ err_message err))))"
proof (cases "unlinkSync_error ev")
  case None
  with assms show ?thesis by (simp add: runCode_interpreted)
next
  case (Some e)
  with assms show ?thesis by (simp add: runCode_unlink_fails)
qed

theorem runCode_cleanup_witness:
  "validateCode one_line_code =
     Valid (one_line_code @ [0x0A] @ pass_line) (Some empty_function_message) \<and>
   writeFileSync_error (run_env None (Some crash_callback) None) = None \<and>
   exec_callback (run_env None (Some crash_callback) None) = Some crash_callback \<and>
   unlinkSync_error (run_env None (Some crash_callback) None) = None \<and>
   events (snd (runCode (table_engine []) (run_env None (Some crash_callback) None)
                  one_line_code empty_world)) =
     [WriteFileSync (js ''/tmp/1b9d6bcd.py'') (one_line_code @ [0x0A] @ pass_line @ driver_code),
      Exec (python_command (js ''/tmp/1b9d6bcd.py'')),
      UnlinkSync (js ''/tmp/1b9d6bcd.py'')] \<and>
   files (snd (runCode (table_engine []) (run_env None (Some crash_callback) None)
                 one_line_code empty_world)) (js ''/tmp/1b9d6bcd.py'') = None \<and>
   unlinkSync_error (run_env None (Some crash_callback) (Some missing_file_error)) =
     Some missing_file_error \<and>
   fst (runCode (table_engine []) (run_env None (Some crash_callback) (Some missing_file_error))
          one_line_code empty_world) =
     Fulfilled (failure (JStr (js ''Failed to process execution results: ''
                               @ err_message missing_file_error)))"
proof -
  let ?good = "run_env None (Some crash_callback) None"
  let ?bad = "run_env None (Some crash_callback) (Some missing_file_error)"
  have path: "temp_file (run_env a b c) = js ''/tmp/1b9d6bcd.py''" for a b c
    by (simp add: temp_file_def run_env_def js_def)
  have cb_good: "exec_callback ?good =
      Some (Some (JsError (js ''Command failed: python'')), [],
            js ''IndentationError: unexpected indent'')"
    and cb_bad: "exec_callback ?bad =
      Some (Some (JsError (js ''Command failed: python'')), [],
            js ''IndentationError: unexpected indent'')"
    by (simp_all add: run_env_simps crash_callback_def)
  have w_good: "writeFileSync_error ?good = None" and w_bad: "writeFileSync_error ?bad = None"
    by (simp_all add: run_env_simps)
  note good = runCode_cleanup [OF validateCode_one_line w_good cb_good,
      where eng = "table_engine []" and w = empty_world]
  note bad = runCode_cleanup [OF validateCode_one_line w_bad cb_bad,
      where eng = "table_engine []" and w = empty_world]
  from good bad show ?thesis
    by (simp add: validateCode_one_line run_env_simps path empty_world_def)
qed

text \<open>
  A failed deletion does mask a failure of the process: here the child removes its own
  file and exits with status 1, \<^verbatim>\<open>unlinkSync\<close> then throws, and the Verdict carries the
  deletion error and not the exit error of the process.
\<close>

theorem cleanup_failure_masks_counterexample:
  "validateCode self_deleting_code = Valid self_deleting_code None \<and>
   exec_callback (run_env None (Some exit_callback) (Some missing_file_error)) =
     Some (Some (JsError (js ''Command failed: python'')), [], []) \<and>
   fst (runCode (table_engine []) (run_env None (Some exit_callback) (Some missing_file_error))
          self_deleting_code empty_world) =
     Fulfilled (failure (JStr
       (js ''Failed to process execution results: ENOENT: no such file or directory, unlink''))) \<and>
   error (failure (JStr
       (js ''Failed to process execution results: ENOENT: no such file or directory, unlink''))
       :: int verdict) \<noteq> Some (JStr (js ''Command failed: python''))"
  by (simp add: validateCode_self_deleting run_env_simps exit_callback_def
      missing_file_error_def failure_simps
      runCode_unlink_fails [OF validateCode_self_deleting, of _ "Some (JsError (js ''Command failed: python''))" "[]" "[]"])
     (simp add: js_def)


section \<open>Exceptions raised by the submitted function\<close>

text \<open>
  An exception in the first case leaves the error entry alone in the list, and the
  interpreter then answers with that message, provided the message is not empty; an empty
  message (\<^verbatim>\<open>raise Exception()\<close>) is falsy and the list is aggregated like outcomes.
\<close>

lemma single_error_entry_verdict:
  assumes "JSON_parse eng stdout = Inr (JArr [error_entry e])" and "e \<noteq> []"
  shows "interpret_result eng None stdout stderr msg = failure (JStr e)"
  using assms
  by (simp add: interpret_result_def process_output_def error_record_def error_entry_def js_def)

lemma empty_message_entry_verdict:
  assumes "JSON_parse eng stdout = Inr (JArr [error_entry []])"
  shows "error (interpret_result eng None stdout stderr msg) = None \<and>
         \<not> success (interpret_result eng None stdout stderr msg) \<and>
         output_text (interpret_result eng None stdout stderr msg) = Some some_failed_text \<and>
         testResults (interpret_result eng None stdout stderr msg) = Some (JArr [error_entry []])"
proof -
  have "\<not> is_error_record eng [error_entry []]"
    by (simp add: is_error_record_def error_entry_def js_def)
  from interpret_result_outcomes [OF assms _ this, where stderr = stderr and msg = msg]
  show ?thesis
    by (auto simp: error_entry_record error_entry_not_passed)
qed

text \<open>
  C4. The claim is that an exception in a test case makes the driver print a list holding
  only the error entry, which the interpreter turns into a failed Verdict whose error is
  the exception text and which has no \<^verbatim>\<open>testResults\<close>. The driver stops at the exception
  but appends the error entry to the outcomes already collected: when the first case
  returns and the second raises, the list has two entries, the interpreter does not
  recognise it (it looks for a list of length one), and the Verdict has no error, the
  output \<^verbatim>\<open>Some test cases failed.\<close> and the two entries as \<^verbatim>\<open>testResults\<close>.
\<close>

theorem exception_after_first_case:
  assumes "two_sum [2, 7, 11, 15] 9 = Returns actual1" and "two_sum [3, 2, 4] 6 = Raises e"
    and "JSON_parse eng stdout = Inr (JArr (run_tests eng two_sum elapsed))"
  shows "run_tests eng two_sum elapsed =
           [case_outcome eng 1 ''[2, 7, 11, 15], 9'' ''[0, 1]'' actual1 (elapsed 1),
            error_entry e] \<and>
         error (interpret_result eng None stdout stderr msg) = None \<and>
         success (interpret_result eng None stdout stderr msg) = False \<and>
         output_text (interpret_result eng None stdout stderr msg) = Some some_failed_text \<and>
         testResults (interpret_result eng None stdout stderr msg) =
           Some (JArr [case_outcome eng 1 ''[2, 7, 11, 15], 9'' ''[0, 1]'' actual1 (elapsed 1),
                       error_entry e])"
proof -
  let ?rs = "[case_outcome eng 1 ''[2, 7, 11, 15], 9'' ''[0, 1]'' actual1 (elapsed 1),
              error_entry e]"
  have rs: "run_tests eng two_sum elapsed = ?rs"
    by (rule run_tests_raises_second [OF assms(1,2)])
  have parsed: "JSON_parse eng stdout = Inr (JArr ?rs)"
    using assms(3) rs by simp
  have records: "list_all outcome_record ?rs"
    by (simp add: case_outcome_record error_entry_record)
  have "\<not> is_error_record eng ?rs"
    by (rule not_error_record_long)
  from interpret_result_outcomes [OF parsed records this, where stderr = stderr and msg = msg]
  show ?thesis
    using rs by (auto simp: error_entry_not_passed)
qed

theorem exception_after_first_case_witness:
  "raises_on_three [2, 7, 11, 15] 9 = Returns (js ''[0, 1]'') \<and>
   raises_on_three [3, 2, 4] 6 = Raises (js ''boom'') \<and>
   JSON_parse (reading_engine boom_output (run_tests (table_engine []) raises_on_three no_time))
       boom_output
     = Inr (JArr (run_tests (reading_engine boom_output
                               (run_tests (table_engine []) raises_on_three no_time))
                            raises_on_three no_time)) \<and>
   error (interpret_result
       (reading_engine boom_output (run_tests (table_engine []) raises_on_three no_time))
       None boom_output [] None) = None \<and>
   output_text (interpret_result
       (reading_engine boom_output (run_tests (table_engine []) raises_on_three no_time))
       None boom_output [] None) = Some some_failed_text \<and>
   testResults (interpret_result
       (reading_engine boom_output (run_tests (table_engine []) raises_on_three no_time))
       None boom_output [] None) =
     Some (JArr [case_outcome (table_engine []) 1 ''[2, 7, 11, 15], 9'' ''[0, 1]'' (js ''[0, 1]'') 0,
                 error_entry (js ''boom'')])"
proof -
  let ?rs = "run_tests (table_engine []) raises_on_three no_time"
  let ?eng = "reading_engine boom_output ?rs"
  have same: "run_tests ?eng raises_on_three no_time = ?rs"
    by (simp add: run_tests_raises_second [OF raises_on_three_calls] case_outcome_def
        reading_engine_def table_engine_simps)
  have parsed: "JSON_parse ?eng boom_output = Inr (JArr (run_tests ?eng raises_on_three no_time))"
    by (simp add: same reading_engine_parse)
  from exception_after_first_case [OF raises_on_three_calls parsed,
      where stderr = "[]" and msg = None]
  show ?thesis
    using parsed
    by (simp add: raises_on_three_calls no_time_def case_outcome_def reading_engine_def
        table_engine_simps)
qed


section \<open>The placeholder for an empty function\<close>





section \<open>Success and error exclude each other\<close>

text \<open>
  C9. Every Verdict returned by \<^verbatim>\<open>runCode\<close> with \<^verbatim>\<open>success\<close> true has
  \<^verbatim>\<open>testResults\<close>, a list in which every record's \<^verbatim>\<open>passed\<close> flag is the boolean true
  or the string \<^verbatim>\<open>True\<close>, the output \<^verbatim>\<open>All test cases passed!\<close>, an
  \<^verbatim>\<open>executionTime\<close> and no \<^verbatim>\<open>error\<close>; a Verdict with an error has \<^verbatim>\<open>success\<close>
  false.
\<close>

theorem success_invariant:
  assumes "runCode eng ev code w = (Fulfilled v, w')"
  shows "(success v \<longrightarrow>
            (\<exists>rs t. testResults v = Some (JArr rs) \<and> list_all passed_flag rs \<and>
                    output_text v = Some all_passed_text \<and> executionTime v = Some t \<and>
                    error v = None)) \<and>
         (error v \<noteq> None \<longrightarrow> \<not> success v)"
proof -
  from runCode_fulfilled_cases [OF assms] consider
    (fail) e where "v = failure e" |
    (agg) m results where "aggregate eng results m = Inr v" by blast
  then show ?thesis
  proof cases
    case fail
    then show ?thesis by (simp add: failure_simps)
  next
    case agg
    from aggregate_shape [OF agg] obtain rs t where
      "results = JArr rs" "every_passed rs = Inr (success v)" "error v = None"
      "output_text v = Some (if success v then all_passed_text else some_failed_text)"
      "testResults v = Some (JArr rs)" "executionTime v = Some t" by blast
    then show ?thesis
      using every_passed_True [of rs] by auto
  qed
qed

theorem success_invariant_witness:
  "(\<exists>v w'. runCode
       (reading_engine all_pass_output (run_tests (table_engine []) correct_two_sum no_time))
       (run_env None (Some (None, all_pass_output, [])) None) solution_code empty_world
       = (Fulfilled v, w') \<and>
     success v \<and>
     (\<exists>rs t. testResults v = Some (JArr rs) \<and> list_all passed_flag rs \<and>
             output_text v = Some all_passed_text \<and> executionTime v = Some t \<and>
             error v = None)) \<and>
   (\<exists>v w'. runCode (table_engine []) (run_env None (Some crash_callback) None)
       one_line_code empty_world = (Fulfilled v, w') \<and>
     error v \<noteq> None \<and> \<not> success v)"
proof -
  let ?rs = "run_tests (table_engine []) correct_two_sum no_time"
  let ?eng = "reading_engine all_pass_output ?rs"
  let ?ev = "run_env None (Some (None, all_pass_output, [])) None"
  let ?v = "interpret_result ?eng None all_pass_output [] None"
  obtain w' where run: "runCode ?eng ?ev solution_code empty_world = (Fulfilled ?v, w')"
    using runCode_interpreted [OF validateCode_solution run_env_clean [of all_pass_output "[]"],
        where eng = ?eng and w = empty_world]
    by blast
  from interpret_result_outcomes [OF reading_engine_parse [of all_pass_output ?rs]
      run_tests_outcome_records run_tests_correct_no_error, where stderr = "[]" and msg = None]
  have ok: "success ?v"
    by (auto simp: run_tests_correct_passed)
  from success_invariant [OF run] ok run
  have first: "\<exists>v w'. runCode ?eng ?ev solution_code empty_world = (Fulfilled v, w') \<and>
     success v \<and>
     (\<exists>rs t. testResults v = Some (JArr rs) \<and> list_all passed_flag rs \<and>
             output_text v = Some all_passed_text \<and> executionTime v = Some t \<and>
             error v = None)"
    by blast
  let ?crash = "run_env None (Some crash_callback) None"
  let ?f = "failure (JStr (js ''IndentationError: unexpected indent'')) :: int verdict"
  have cb: "exec_callback ?crash =
      Some (Some (JsError (js ''Command failed: python'')), [],
            js ''IndentationError: unexpected indent'')"
    by (simp add: run_env_simps crash_callback_def)
  have "js ''IndentationError: unexpected indent'' \<noteq> []"
    by (simp add: js_def)
  then obtain w2 where
    run2: "runCode (table_engine []) ?crash one_line_code empty_world = (Fulfilled ?f, w2)"
    using runCode_interpreted [OF validateCode_one_line _ cb, where eng = "table_engine []"
        and w = empty_world]
    by (simp add: run_env_simps interpret_result_def)
  have "error ?f \<noteq> None"
    by (simp add: failure_simps)
  with success_invariant [OF run2] run2 have second:
    "\<exists>v w'. runCode (table_engine []) ?crash one_line_code empty_world = (Fulfilled v, w') \<and>
       error v \<noteq> None \<and> \<not> success v"
    by blast
  from first second show ?thesis by blast
qed


section \<open>More evaluations of the examples\<close>

lemma required_begins: "required_definition l \<Longrightarrow> begins_definition l"
  by (simp add: required_definition_def)

lemma has_required_implies: "has_required_definition code \<Longrightarrow> has_definition_line code"
  unfolding has_required_definition_def has_definition_line_def list_ex_iff
  using required_begins by blast

lemma validateCode_exiting: "validateCode exiting_code = Valid exiting_code None"
  by (simp add: validateCode_def exiting_code_def line_simps)

lemma validateCode_helper: "validateCode helper_code = Valid helper_code None"
  by (simp add: validateCode_def helper_code_def line_simps)

lemma split_helper:
  "split_nl helper_code = [js ''def two_sum_helper(a, b, c):'', js ''    return [0, 1]'']"
  by (simp add: helper_code_def split_nl_def js_def)

lemma helper_not_required: "\<not> has_required_definition helper_code"
  unfolding has_required_definition_def split_helper
  by (simp add: required_definition_def word_simps)

lemma required_example: "required_definition (js ''  def two_sum(nums, target):'')"
  by (simp add: required_definition_def word_simps)

lemma temp_file_run_env: "temp_file (run_env a b c) = js ''/tmp/1b9d6bcd.py''"
  by (simp add: temp_file_def run_env_def js_def)

lemma run_env_failing_unlink:
  "writeFileSync_error (run_env None (Some cb) (Some e)) = None"
  "exec_callback (run_env None (Some cb) (Some e)) = Some cb"
  "unlinkSync_error (run_env None (Some cb) (Some e)) = Some e"
  by (simp_all add: run_env_simps)

lemma cleanup_text_simp:
  "js ''Failed to process execution results: '' @ err_message missing_file_error =
   js ''Failed to process execution results: ENOENT: no such file or directory, unlink''"
  by (simp add: missing_file_error_def js_def)

lemma crash_callback_env:
  "exec_callback (run_env None (Some crash_callback) c) =
      Some (Some (JsError (js ''Command failed: python'')), [],
            js ''IndentationError: unexpected indent'')"
  by (simp add: run_env_simps crash_callback_def)




section \<open>Submissions without a definition line\<close>

text \<open>
  C2 (as amended). When no line of the submission begins, leading whitespace removed,
  with the characters \<^verbatim>\<open>def two_sum\<close>, \<^verbatim>\<open>runCode\<close> returns the Verdict with
  \<^verbatim>\<open>success\<close> false whose error is \<^verbatim>\<open>Failed to execute code:\<close> followed by the
  validation message and which has no other field, and the outside world is left as it
  was: no file is written and no process is launched. (A line that begins the required
  definition begins with these characters, by \<open>has_required_implies\<close>; the converse
  fails.)
\<close>

theorem runCode_no_definition:
  "\<not> has_definition_line code \<Longrightarrow>
     runCode eng ev code w =
       (Fulfilled \<lparr>success = False,
                   error = Some (JStr (js ''Failed to execute code: '' @ no_function_error)),
                   output_text = None, testResults = None, executionTime = None,
                   message = None\<rparr>, w)"
  by (simp add: runCode_invalid validateCode_invalid failure_def)

theorem runCode_no_definition_witness:
  "\<not> has_definition_line (js ''print(two_sum)'') \<and>
   runCode (table_engine []) (run_env None (Some (None, js ''[]'', [])) None)
       (js ''print(two_sum)'') empty_world =
     (Fulfilled \<lparr>success = False,
                 error = Some (JStr (js ''Failed to execute code: '' @ no_function_error)),
                 output_text = None, testResults = None, executionTime = None,
                 message = None\<rparr>,
      empty_world) \<and>
   events empty_world = []"
  using runCode_no_definition [OF print_line_not_definition] print_line_not_definition
  by (simp add: empty_world_def)

text \<open>
  With "the required definition" read as the exact name and two parameters the statement
  fails: a submission that only defines \<^verbatim>\<open>two_sum_helper(a, b, c)\<close> has no such line, yet
  it passes validation, the file is written and the interpreter is launched; the error
  of the Verdict is the driver's, not the validation message.
\<close>

theorem helper_definition_launches_counterexample:
  "\<not> has_required_definition helper_code \<and>
   fst (runCode (reading_engine name_error_output [error_entry name_error_text])
          (run_env None (Some (None, name_error_output, [])) None) helper_code empty_world) =
     Fulfilled \<lparr>success = False, error = Some (JStr name_error_text),
                output_text = None, testResults = None, executionTime = None,
                message = None\<rparr> \<and>
   events (snd (runCode (reading_engine name_error_output [error_entry name_error_text])
          (run_env None (Some (None, name_error_output, [])) None) helper_code empty_world)) =
     [WriteFileSync (js ''/tmp/1b9d6bcd.py'') (helper_code @ driver_code),
      Exec (python_command (js ''/tmp/1b9d6bcd.py'')),
      UnlinkSync (js ''/tmp/1b9d6bcd.py'')]"
proof -
  have ne: "name_error_text \<noteq> []"
    by (simp add: name_error_text_def js_def)
  have v: "interpret_result (reading_engine name_error_output [error_entry name_error_text])
      None name_error_output [] None = failure (JStr name_error_text)"
    by (rule single_error_entry_verdict [OF reading_engine_parse ne])
  show ?thesis
    by (simp add: helper_not_required
        runCode_interpreted [OF validateCode_helper run_env_clean [of name_error_output "[]"]]
        v failure_def temp_file_run_env empty_world_def)
qed


section \<open>The Verdict of an outcome list\<close>

text \<open>
  C6 (as amended). When the process exited cleanly, the temporary file was deleted, and
  the captured output parses as a list of outcome records that is not the error record,
  the Verdict returned by \<^verbatim>\<open>runCode\<close> has as \<^verbatim>\<open>success\<close> the conjunction of the records'
  \<^verbatim>\<open>passed\<close> flags, a flag counting when it is the boolean true or the string
  \<^verbatim>\<open>True\<close>; its output is \<^verbatim>\<open>All test cases passed!\<close> when all passed and
  \<^verbatim>\<open>Some test cases failed.\<close> otherwise (two different texts); its \<^verbatim>\<open>testResults\<close> is
  the parsed list and it has no error.
\<close>

theorem normal_outcome_list_verdict:
  assumes "validateCode code = Valid c msg" and "writeFileSync_error ev = None"
    and "exec_callback ev = Some (None, stdout, stderr)" and "unlinkSync_error ev = None"
    and "JSON_parse eng stdout = Inr (JArr rs)" and "list_all outcome_record rs"
    and "\<not> is_error_record eng rs"
  shows "\<exists>v w'. runCode eng ev code w = (Fulfilled v, w') \<and>
           success v = list_all passed_flag rs \<and>
           output_text v = Some (if list_all passed_flag rs then all_passed_text
                                 else some_failed_text) \<and>
           all_passed_text \<noteq> some_failed_text \<and>
           testResults v = Some (JArr rs) \<and>
           error v = None"
proof -
  from interpret_result_outcomes [OF assms(5,6,7), where stderr = stderr and msg = msg]
  obtain t where
    "interpret_result eng None stdout stderr msg =
           \<lparr>success = list_all passed_flag rs, error = None,
            output_text = Some (if list_all passed_flag rs then all_passed_text
                                else some_failed_text),
            testResults = Some (JArr rs), executionTime = Some t,
            message = (case msg of None \<Rightarrow> None
                       | Some m \<Rightarrow> if m \<noteq> [] then Some m else None)\<rparr>" by blast
  then show ?thesis
    by (simp add: texts_differ runCode_interpreted [OF assms(1,2,3,4)])
qed

theorem normal_outcome_list_verdict_witness:
  "validateCode solution_code = Valid solution_code None \<and>
   writeFileSync_error (run_env None (Some (None, all_pass_output, [])) None) = None \<and>
   exec_callback (run_env None (Some (None, all_pass_output, [])) None)
     = Some (None, all_pass_output, []) \<and>
   unlinkSync_error (run_env None (Some (None, all_pass_output, [])) None) = None \<and>
   JSON_parse (reading_engine all_pass_output (run_tests (table_engine []) correct_two_sum no_time))
     all_pass_output = Inr (JArr (run_tests (table_engine []) correct_two_sum no_time)) \<and>
   list_all outcome_record (run_tests (table_engine []) correct_two_sum no_time) \<and>
   \<not> is_error_record
       (reading_engine all_pass_output (run_tests (table_engine []) correct_two_sum no_time))
       (run_tests (table_engine []) correct_two_sum no_time) \<and>
   list_all passed_flag (run_tests (table_engine []) correct_two_sum no_time) \<and>
   (\<exists>v w'. runCode
        (reading_engine all_pass_output (run_tests (table_engine []) correct_two_sum no_time))
        (run_env None (Some (None, all_pass_output, [])) None) solution_code empty_world
        = (Fulfilled v, w') \<and>
      success v \<and> output_text v = Some all_passed_text \<and>
      testResults v = Some (JArr (run_tests (table_engine []) correct_two_sum no_time)) \<and>
      error v = None)"
proof -
  let ?rs = "run_tests (table_engine []) correct_two_sum no_time"
  let ?eng = "reading_engine all_pass_output ?rs"
  note inst = normal_outcome_list_verdict [OF validateCode_solution
      run_env_clean [of all_pass_output "[]"] reading_engine_parse [of all_pass_output ?rs]
      run_tests_outcome_records run_tests_correct_no_error, where w = empty_world]
  from inst have main: "\<exists>v w'. runCode ?eng
        (run_env None (Some (None, all_pass_output, [])) None) solution_code empty_world
        = (Fulfilled v, w') \<and>
      success v \<and> output_text v = Some all_passed_text \<and>
      testResults v = Some (JArr ?rs) \<and> error v = None"
    by (auto simp: run_tests_correct_passed)
  have "list_all passed_flag ?rs" "list_all outcome_record ?rs" "\<not> is_error_record ?eng ?rs"
    by (rule run_tests_correct_passed run_tests_outcome_records run_tests_correct_no_error)+
  with main show ?thesis
    by (simp add: reading_engine_parse validateCode_solution run_env_clean)
qed

text \<open>
  Without the two provisos the statement fails. The output below parses as a list of three
  passed outcomes; when the deletion of the file fails the Verdict is the one of the
  cleanup failure, and when \<^verbatim>\<open>exec\<close> reports an exit error the Verdict is the one of that
  error: \<^verbatim>\<open>success\<close> is false and there are no \<^verbatim>\<open>testResults\<close> in either.
\<close>

theorem outcome_list_not_interpreted_counterexample:
  "JSON_parse (reading_engine all_pass_output (run_tests (table_engine []) correct_two_sum no_time))
     all_pass_output = Inr (JArr (run_tests (table_engine []) correct_two_sum no_time)) \<and>
   list_all outcome_record (run_tests (table_engine []) correct_two_sum no_time) \<and>
   \<not> is_error_record
       (reading_engine all_pass_output (run_tests (table_engine []) correct_two_sum no_time))
       (run_tests (table_engine []) correct_two_sum no_time) \<and>
   list_all passed_flag (run_tests (table_engine []) correct_two_sum no_time) \<and>
   fst (runCode
        (reading_engine all_pass_output (run_tests (table_engine []) correct_two_sum no_time))
        (run_env None (Some (None, all_pass_output, [])) (Some missing_file_error))
        solution_code empty_world) =
     Fulfilled \<lparr>success = False,
                error = Some (JStr (js ''Failed to process execution results: ENOENT: no such file or directory, unlink'')),
                output_text = None, testResults = None, executionTime = None,
                message = None\<rparr> \<and>
   fst (runCode
        (reading_engine all_pass_output (run_tests (table_engine []) correct_two_sum no_time))
        (run_env None (Some (Some (JsError (js ''Command failed: python'')), all_pass_output, []))
           None)
        solution_code empty_world) =
     Fulfilled \<lparr>success = False, error = Some (JStr (js ''Command failed: python'')),
                output_text = None, testResults = None, executionTime = None,
                message = None\<rparr>"
proof -
  have a: "fst (runCode
        (reading_engine all_pass_output (run_tests (table_engine []) correct_two_sum no_time))
        (run_env None (Some (None, all_pass_output, [])) (Some missing_file_error))
        solution_code empty_world) =
     Fulfilled \<lparr>success = False,
                error = Some (JStr (js ''Failed to process execution results: ENOENT: no such file or directory, unlink'')),
                output_text = None, testResults = None, executionTime = None,
                message = None\<rparr>"
    by (simp add: runCode_unlink_fails [OF validateCode_solution
          run_env_failing_unlink [of "(None, all_pass_output, [])" missing_file_error]]
        failure_def cleanup_text_simp)
  have b: "fst (runCode
        (reading_engine all_pass_output (run_tests (table_engine []) correct_two_sum no_time))
        (run_env None (Some (Some (JsError (js ''Command failed: python'')), all_pass_output, []))
           None)
        solution_code empty_world) =
     Fulfilled \<lparr>success = False, error = Some (JStr (js ''Command failed: python'')),
                output_text = None, testResults = None, executionTime = None,
                message = None\<rparr>"
    by (simp add: runCode_interpreted [OF validateCode_solution, where
          ev = "run_env None (Some (Some (JsError (js ''Command failed: python'')), all_pass_output, [])) None"
          and exitError = "Some (JsError (js ''Command failed: python''))"
          and stdout = all_pass_output and stderr = "[]"]
        run_env_simps interpret_result_def failure_def)
  from a b show ?thesis
    by (simp add: reading_engine_parse run_tests_outcome_records run_tests_correct_no_error
        run_tests_correct_passed)
qed


section \<open>The Verdict of an exit error\<close>

text \<open>
  C7 (as amended). When \<^verbatim>\<open>exec\<close> reports an error (the process did not start or exited
  abnormally) and the temporary file was deleted, the Verdict returned by \<^verbatim>\<open>runCode\<close>
  has \<^verbatim>\<open>success\<close> false, as \<^verbatim>\<open>error\<close> the captured standard error when that is not empty
  and the message of the exit error otherwise, and no other field: no \<^verbatim>\<open>testResults\<close>.
  The Verdict is the same for every standard output and every parser: the output is not
  parsed.
\<close>

theorem exit_error_verdict:
  assumes "validateCode code = Valid c msg" and "writeFileSync_error ev = None"
    and "exec_callback ev = Some (Some err, stdout, stderr)" and "unlinkSync_error ev = None"
  shows "fst (runCode eng ev code w) =
           Fulfilled \<lparr>success = False,
                      error = Some (JStr (if stderr \<noteq> [] then stderr else err_message err)),
                      output_text = None, testResults = None, executionTime = None,
                      message = None\<rparr>"
  by (simp add: runCode_interpreted [OF assms] interpret_result_def failure_def)

theorem exit_error_verdict_witness:
  "validateCode one_line_code =
     Valid (one_line_code @ [0x0A] @ pass_line) (Some empty_function_message) \<and>
   writeFileSync_error (run_env None (Some crash_callback) None) = None \<and>
   exec_callback (run_env None (Some crash_callback) None) =
     Some (Some (JsError (js ''Command failed: python'')), [],
           js ''IndentationError: unexpected indent'') \<and>
   unlinkSync_error (run_env None (Some crash_callback) None) = None \<and>
   fst (runCode (table_engine []) (run_env None (Some crash_callback) None)
          one_line_code empty_world) =
     Fulfilled \<lparr>success = False,
                error = Some (JStr (js ''IndentationError: unexpected indent'')),
                output_text = None, testResults = None, executionTime = None,
                message = None\<rparr> \<and>
   fst (runCode (table_engine []) (run_env None (Some exit_callback) None)
          exiting_code empty_world) =
     Fulfilled \<lparr>success = False, error = Some (JStr (js ''Command failed: python'')),
                output_text = None, testResults = None, executionTime = None,
                message = None\<rparr>"
proof -
  have w: "writeFileSync_error (run_env None b None) = None"
    and u: "unlinkSync_error (run_env None b None) = None" for b
    by (simp_all add: run_env_simps)
  have ne: "js ''IndentationError: unexpected indent'' \<noteq> []"
    by (simp add: js_def)
  have ecb: "exec_callback (run_env None (Some exit_callback) None) =
      Some (Some (JsError (js ''Command failed: python'')), [], [])"
    by (simp add: run_env_simps exit_callback_def)
  note first = exit_error_verdict [OF validateCode_one_line w crash_callback_env u,
      where eng = "table_engine []" and w = empty_world]
  note second = exit_error_verdict [OF validateCode_exiting w ecb u,
      where eng = "table_engine []" and w = empty_world]
  from first second show ?thesis
    by (simp add: validateCode_one_line crash_callback_env ne w u)
qed

text \<open>
  Without the proviso the statement fails: with the same exit error and standard error,
  a failing deletion gives a Verdict whose error is the cleanup message, which is not the
  standard error.
\<close>

theorem exit_error_masked_counterexample:
  "validateCode one_line_code =
     Valid (one_line_code @ [0x0A] @ pass_line) (Some empty_function_message) \<and>
   exec_callback (run_env None (Some crash_callback) (Some missing_file_error)) =
     Some (Some (JsError (js ''Command failed: python'')), [],
           js ''IndentationError: unexpected indent'') \<and>
   fst (runCode (table_engine []) (run_env None (Some crash_callback) (Some missing_file_error))
          one_line_code empty_world) =
     Fulfilled \<lparr>success = False,
                error = Some (JStr (js ''Failed to process execution results: ENOENT: no such file or directory, unlink'')),
                output_text = None, testResults = None, executionTime = None,
                message = None\<rparr> \<and>
   js ''Failed to process execution results: ENOENT: no such file or directory, unlink''
     \<noteq> js ''IndentationError: unexpected indent''"
proof -
  have "js ''Failed to process execution results: ENOENT: no such file or directory, unlink''
     \<noteq> js ''IndentationError: unexpected indent''"
    by (simp add: js_def)
  moreover have "fst (runCode (table_engine [])
          (run_env None (Some crash_callback) (Some missing_file_error))
          one_line_code empty_world) =
     Fulfilled \<lparr>success = False,
                error = Some (JStr (js ''Failed to process execution results: ENOENT: no such file or directory, unlink'')),
                output_text = None, testResults = None, executionTime = None,
                message = None\<rparr>"
    by (simp add: runCode_unlink_fails [OF validateCode_one_line _ crash_callback_env]
        run_env_simps failure_def cleanup_text_simp)
  ultimately show ?thesis
    by (simp add: validateCode_one_line crash_callback_env)
qed


section \<open>The Verdict of output that is rejected\<close>




end
